theory Spec2Isabelle
  imports Complex_Main "HOL-Library.Word" "HOL-Library.AList" "HOL-Library.Sublist"
begin

section \<open>JavaScript values\<close>

text \<open>
  A JavaScript string is a sequence of 16-bit code units. Literals of the source are
  written with \<open>js\<close>, which maps each (ASCII) character to its code unit.
\<close>

type_synonym ustring = "16 word list"

definition js :: "string \<Rightarrow> ustring" where
  "js s = map of_char s"

text \<open>A \<open>Buffer\<close> is a sequence of bytes.\<close>

type_synonym byte = "8 word"

text \<open>
  The values that \<open>JSON.parse\<close> produces and that the handlers pass around. A number
  is represented by the rational value of its numeral (rounding to IEEE doubles is not
  modelled: the code tests a number for zero, and the one place where it adds two numbers
  takes the addition as a parameter). An object is
  an association list in property order; a property is looked up with \<open>map_of\<close> and
  assigned with \<open>AList.update\<close>, which overwrites in place or appends.
\<close>

datatype jsval =
    JUndefined
  | JNull
  | JBool bool
  | JNum rat
  | JStr ustring
  | JArr "jsval list"
  | JObj "(ustring \<times> jsval) list"

text \<open>ToBoolean, as used by \<open>&&\<close>, \<open>||\<close>, \<open>if\<close> and \<open>? :\<close>.\<close>

fun truthy :: "jsval \<Rightarrow> bool" where
  "truthy JUndefined = False"
| "truthy JNull = False"
| "truthy (JBool b) = b"
| "truthy (JNum n) = (n \<noteq> 0)"
| "truthy (JStr s) = (s \<noteq> [])"
| "truthy (JArr xs) = True"
| "truthy (JObj kvs) = True"

text \<open>
  Reading the property \<open>k\<close> of a value that is neither \<open>undefined\<close> nor \<open>null\<close>,
  for the property names the source uses (\<open>jsonrpc\<close>, \<open>result\<close>,
  \<open>structuredContent\<close>, \<open>content\<close>, \<open>_meta\<close>, \<open>type\<close>, \<open>properties\<close>):
  none of them is an array index or a property of a built-in prototype, so only an object
  can have one.
\<close>

fun named_prop :: "jsval \<Rightarrow> ustring \<Rightarrow> jsval" where
  "named_prop (JObj kvs) k = (case map_of kvs k of None \<Rightarrow> JUndefined | Some v \<Rightarrow> v)"
| "named_prop v k = JUndefined"

fun set_prop :: "jsval \<Rightarrow> ustring \<Rightarrow> jsval \<Rightarrow> jsval" where
  "set_prop (JObj kvs) k v = JObj (AList.update k v kvs)"
| "set_prop x k v = x"

section \<open>CustomStdioClientTransport: the inbound side\<close>

text \<open>
  \<open>String.prototype.trim\<close> removes WhiteSpace and LineTerminator code units from both
  ends.
\<close>

definition is_js_whitespace :: "16 word \<Rightarrow> bool" where
  "is_js_whitespace c \<longleftrightarrow>
     c \<in> {0x09, 0x0A, 0x0B, 0x0C, 0x0D, 0x20, 0xA0, 0x1680, 0x2028, 0x2029, 0x202F,
          0x205F, 0x3000, 0xFEFF}
     \<or> (0x2000 \<le> c \<and> c \<le> 0x200A)"

definition trim :: "ustring \<Rightarrow> ustring" where
  "trim s = rev (dropWhile is_js_whitespace (rev (dropWhile is_js_whitespace s)))"

definition newline :: "16 word" where
  "newline = 0x0A"

text \<open>\<open>indexOf\<close>: the first position of the code unit; \<open>None\<close> stands for \<open>-1\<close>.\<close>

fun indexOf :: "ustring \<Rightarrow> 16 word \<Rightarrow> nat option" where
  "indexOf [] c = None"
| "indexOf (x # xs) c = (if x = c then Some 0 else map_option Suc (indexOf xs c))"

text \<open>\<open>substring(a, b)\<close> clamps both indices to the length and swaps them if needed.\<close>

definition substring :: "ustring \<Rightarrow> nat \<Rightarrow> nat \<Rightarrow> ustring" where
  "substring s a b =
     (let a' = min a (length s); b' = min b (length s)
      in take (max a' b' - min a' b') (drop (min a' b') s))"

definition substring_from :: "ustring \<Rightarrow> nat \<Rightarrow> ustring" where
  "substring_from s a = drop a s"

text \<open>
  The correction applied to every parsed message:
  \<^verbatim>\<open>if (message && message.jsonrpc === "2.0" && message.result
        && message.result.structuredContent === null)
      message.result.structuredContent = {};\<close>
  The parsed message is a tree without sharing, so the assignment is the update of the
  \<open>result\<close> member of the message.
\<close>

definition correct_structuredContent :: "jsval \<Rightarrow> jsval" where
  "correct_structuredContent message =
     (if truthy message
         \<and> named_prop message (js ''jsonrpc'') = JStr (js ''2.0'')
         \<and> truthy (named_prop message (js ''result''))
         \<and> named_prop (named_prop message (js ''result'')) (js ''structuredContent'') = JNull
      then set_prop message (js ''result'')
             (set_prop (named_prop message (js ''result'')) (js ''structuredContent'') (JObj []))
      else message)"

text \<open>
  \<open>data.toString()\<close> decodes the bytes of one chunk as UTF-8. The decoder follows the
  WHATWG algorithm: a byte that cannot start or continue a sequence and a sequence cut off
  by the end of the chunk each give the replacement character U+FFFD; a code point above
  U+FFFF gives a surrogate pair. The state of the decoder is the code point collected so
  far, the number of continuation bytes still needed and the range allowed for the next
  byte.
\<close>

datatype utf8_state =
  Utf8 (code_point: nat) (bytes_needed: nat) (lower_boundary: byte) (upper_boundary: byte)

definition utf8_start :: "byte \<Rightarrow> ustring + utf8_state" where
  "utf8_start b =
     (if b \<le> 0x7F then Inl [ucast b]
      else if 0xC2 \<le> b \<and> b \<le> 0xDF then Inr (Utf8 (unat b - 0xC0) 1 0x80 0xBF)
      else if 0xE0 \<le> b \<and> b \<le> 0xEF
        then Inr (Utf8 (unat b - 0xE0) 2 (if b = 0xE0 then 0xA0 else 0x80)
                    (if b = 0xED then 0x9F else 0xBF))
      else if 0xF0 \<le> b \<and> b \<le> 0xF4
        then Inr (Utf8 (unat b - 0xF0) 3 (if b = 0xF0 then 0x90 else 0x80)
                    (if b = 0xF4 then 0x8F else 0xBF))
      else Inl [0xFFFD])"

definition utf16 :: "nat \<Rightarrow> ustring" where
  "utf16 cp =
     (if cp < 0x10000 then [of_nat cp]
      else [of_nat (0xD800 + (cp - 0x10000) div 0x400),
            of_nat (0xDC00 + (cp - 0x10000) mod 0x400)])"

fun utf8_decode :: "utf8_state option \<Rightarrow> byte list \<Rightarrow> ustring" where
  "utf8_decode None [] = []"
| "utf8_decode (Some s) [] = [0xFFFD]"
| "utf8_decode None (b # bs) =
     (case utf8_start b of
        Inl out \<Rightarrow> out @ utf8_decode None bs
      | Inr s \<Rightarrow> utf8_decode (Some s) bs)"
| "utf8_decode (Some s) (b # bs) =
     (if lower_boundary s \<le> b \<and> b \<le> upper_boundary s
      then (let cp = code_point s * 64 + (unat b - 0x80)
            in if bytes_needed s = 1 then utf16 cp @ utf8_decode None bs
               else utf8_decode (Some (Utf8 cp (bytes_needed s - 1) 0x80 0xBF)) bs)
      else 0xFFFD #
           (case utf8_start b of
              Inl out \<Rightarrow> out @ utf8_decode None bs
            | Inr s' \<Rightarrow> utf8_decode (Some s') bs))"

definition toString :: "byte list \<Rightarrow> ustring" where
  "toString data = utf8_decode None data"

text \<open>
  The transport object: its buffer and whether the upper layer has installed the message
  and error callbacks. What the callbacks receive is recorded as a list of events.
  A chunk is a \<open>Buffer\<close>, decoded on its own by \<open>data.toString()\<close> before it is
  appended to the buffer; \<open>parse\<close> is \<open>JSON.parse\<close>, with \<open>None\<close> for a thrown
  SyntaxError. The callbacks themselves are taken not to throw.
\<close>

record transport =
  buffer :: ustring
  has_onmessage :: bool
  has_onerror :: bool

datatype event = OnMessage jsval | OnError ustring

definition parse_error_message :: "ustring \<Rightarrow> ustring" where
  "parse_error_message line =
     js ''Failed to parse message from child process: '' @ [0x22] @ line @ [0x22]"

definition deliver :: "(ustring \<Rightarrow> jsval option) \<Rightarrow> transport \<Rightarrow> ustring \<Rightarrow> event list" where
  "deliver parse t line =
     (case parse line of
        Some message \<Rightarrow>
          (if has_onmessage t then [OnMessage (correct_structuredContent message)] else [])
      | None \<Rightarrow>
          (if has_onerror t then [OnError (parse_error_message line)] else []))"

function process_buffer ::
  "(ustring \<Rightarrow> jsval option) \<Rightarrow> transport \<Rightarrow> event list \<times> transport" where
  "process_buffer parse t =
     (case indexOf (buffer t) newline of
        None \<Rightarrow> ([], t)
      | Some newlineIndex \<Rightarrow>
          (let line = trim (substring (buffer t) 0 newlineIndex);
               t' = t\<lparr>buffer := substring_from (buffer t) (newlineIndex + 1)\<rparr>
           in if length line = 0 then process_buffer parse t'
              else (case process_buffer parse t' of
                      (evs, t'') \<Rightarrow> (deliver parse t line @ evs, t''))))"
  by pat_completeness auto

termination
proof -
  have less: "indexOf s c = Some i \<Longrightarrow> i < length s" for s c i
    by (induction s arbitrary: i) (auto split: if_splits)
  show ?thesis
    by (relation "measure (\<lambda>(parse, t). length (buffer t))")
       (auto simp: substring_from_def dest: less)
qed

declare process_buffer.simps [simp del]

definition on_data ::
  "(ustring \<Rightarrow> jsval option) \<Rightarrow> transport \<Rightarrow> byte list \<Rightarrow> event list \<times> transport" where
  "on_data parse t data = process_buffer parse (t\<lparr>buffer := buffer t @ toString data\<rparr>)"

text \<open>A sequence of \<open>data\<close> events, one per chunk.\<close>

fun feed ::
  "(ustring \<Rightarrow> jsval option) \<Rightarrow> transport \<Rightarrow> byte list list \<Rightarrow> event list \<times> transport" where
  "feed parse t [] = ([], t)"
| "feed parse t (chunk # chunks) =
     (case on_data parse t chunk of
        (evs, t') \<Rightarrow> (case feed parse t' chunks of (evs', t'') \<Rightarrow> (evs @ evs', t'')))"

subsection \<open>Lines and framing\<close>

text \<open>
  What the loop does with one line of the buffer (the text before a newline): the line is
  trimmed, skipped if nothing is left, and otherwise parsed and delivered.
\<close>

definition line_events :: "(ustring \<Rightarrow> jsval option) \<Rightarrow> transport \<Rightarrow> ustring \<Rightarrow> event list" where
  "line_events parse t l = (if trim l = [] then [] else deliver parse t (trim l))"

text \<open>Newline-delimited framing: every line followed by one newline.\<close>

definition framed :: "ustring list \<Rightarrow> ustring" where
  "framed ls = concat (map (\<lambda>l. l @ [newline]) ls)"

subsection \<open>The earlier transport\<close>

text \<open>
  \<open>src/serverManager.ts\<close> also holds an earlier \<open>CustomStdioClientTransport\<close>, which
  keeps no buffer: each chunk is split at the newlines, the empty pieces are dropped, and
  the pieces are parsed in one \<open>try\<close> block, so the first piece that does not parse ends
  the chunk. \<open>index.ts\<close> calls \<open>getSpawnedServer\<close>, which only the later
  \<open>ServerManager\<close> has; the properties of the transport are stated for the later one.
\<close>

fun split_on :: "16 word \<Rightarrow> ustring \<Rightarrow> ustring list" where
  "split_on c [] = [[]]"
| "split_on c (x # xs) =
     (if x = c then [] # split_on c xs
      else (case split_on c xs of [] \<Rightarrow> [[x]] | l # ls \<Rightarrow> (x # l) # ls))"

fun earlier_forEach ::
  "(ustring \<Rightarrow> jsval option) \<Rightarrow> transport \<Rightarrow> ustring \<Rightarrow> ustring list \<Rightarrow> event list" where
  "earlier_forEach parse t data [] = []"
| "earlier_forEach parse t data (msg # msgs) =
     (case parse msg of
        None \<Rightarrow>
          (if has_onerror t
           then [OnError (js ''Failed to parse message from child process: '' @ data)] else [])
      | Some message \<Rightarrow>
          (if has_onmessage t then [OnMessage message] else [])
            @ earlier_forEach parse t data msgs)"

definition earlier_on_data ::
  "(ustring \<Rightarrow> jsval option) \<Rightarrow> transport \<Rightarrow> byte list \<Rightarrow> event list" where
  "earlier_on_data parse t data =
     earlier_forEach parse t (toString data)
       (filter (\<lambda>msg. msg \<noteq> []) (split_on newline (toString data)))"

subsection \<open>Positions in a message\<close>

text \<open>
  A position in a JSON value is a path of member names and array indices; \<open>value_at m p\<close> is
  the value at that position, \<open>JUndefined\<close> where the path leaves the value.
\<close>

datatype step = Key ustring | Idx nat

fun child :: "jsval \<Rightarrow> step \<Rightarrow> jsval" where
  "child (JObj kvs) (Key k) = (case map_of kvs k of None \<Rightarrow> JUndefined | Some v \<Rightarrow> v)"
| "child (JArr xs) (Idx i) = (if i < length xs then xs ! i else JUndefined)"
| "child v s = JUndefined"

fun value_at :: "jsval \<Rightarrow> step list \<Rightarrow> jsval" where
  "value_at v [] = v"
| "value_at v (s # p) = value_at (child v s) p"



section \<open>ServerManager\<close>

record ClientToolResponse =
  ct_name :: ustring
  ct_title :: "ustring option"
  ct_description :: "ustring option"
  ct_inputSchema :: "jsval option"

record ClientResourceResponse =
  cr_uri :: ustring
  cr_name :: "ustring option"
  cr_title :: "ustring option"
  cr_description :: "ustring option"
  cr_mimeType :: "ustring option"

record ClientPromptResponse =
  cp_name :: ustring
  cp_title :: "ustring option"
  cp_description :: "ustring option"
  cp_argsSchema :: "jsval option"

record McpServerConfig =
  disabled :: "bool option"
  command :: ustring
  command_args :: "ustring list"

text \<open>
  \<open>mcpServers\<close> is listed in the order in which \<open>for (const serverName in \<dots>)\<close>
  visits its keys.
\<close>

record McpRouterConfig =
  mcpServers :: "(ustring \<times> McpServerConfig) list"

subsection \<open>The unified collections\<close>

record UnifiedToolMetadata =
  ut_name :: ustring
  ut_title :: ustring
  ut_description :: "ustring option"
  ut_inputSchema :: "jsval option"
  ut_serverName :: ustring
  ut_originalToolName :: ustring

record UnifiedResourceMetadata =
  ur_name :: "ustring option"
  ur_uri :: ustring
  ur_title :: ustring
  ur_description :: "ustring option"
  ur_mimeType :: "ustring option"
  ur_serverName :: ustring
  ur_originalResourceUri :: ustring

record UnifiedPromptMetadata =
  up_name :: ustring
  up_title :: ustring
  up_description :: "ustring option"
  up_argsSchema :: "jsval option"
  up_serverName :: ustring
  up_originalPromptName :: ustring

subsection \<open>Child processes and their clients\<close>

text \<open>A thrown or rejected \<open>Error\<close>; only its \<open>message\<close> is ever read.\<close>

datatype js_error = Error (message: "ustring option")

text \<open>
  The member of a list response that should hold the capabilities: an array, or anything
  else (missing included).
\<close>

datatype 'a js_field = NotAnArray | Array "'a list"

fun Array_isArray :: "'a js_field \<Rightarrow> bool" where
  "Array_isArray (Array xs) = True"
| "Array_isArray NotAnArray = False"

fun elements :: "'a js_field \<Rightarrow> 'a list" where
  "elements (Array xs) = xs"
| "elements NotAnArray = []"

record call_payload =
  payload_name :: ustring
  payload_arguments :: jsval

text \<open>
  The SDK client of one child, as far as the router uses it after discovery: the name it
  was created with and how the child answers \<open>callTool\<close> and \<open>readResource\<close>
  (\<open>Inl\<close>: the promise rejects).
\<close>

record client =
  client_name :: ustring
  callTool :: "call_payload \<Rightarrow> js_error + jsval"
  readResource :: "ustring \<Rightarrow> js_error + jsval"

text \<open>
  Everything outside the router that decides what happens when a configured server is
  started: whether \<open>spawn\<close> throws, whether \<open>client.connect\<close> rejects, what the child
  answers to the three list requests (\<open>Inl\<close>: an error response), the error with
  which the SDK client turns down a list result that is not of the declared form, and the
  answers to later calls.
\<close>

record child_process =
  spawn_throws :: "js_error option"
  connect_rejects :: "js_error option"
  listTools :: "js_error + ClientToolResponse js_field"
  listResources :: "js_error + ClientResourceResponse js_field"
  listPrompts :: "js_error + ClientPromptResponse js_field"
  invalid_result :: js_error
  answers_callTool :: "call_payload \<Rightarrow> js_error + jsval"
  answers_readResource :: "ustring \<Rightarrow> js_error + jsval"

text \<open>
  The list calls of the SDK client, declared as
  \<^verbatim>\<open>listTools(): Promise<{ tools: any[] }>\<close>, \<^verbatim>\<open>listResources(): Promise<{ resources: any[] }>\<close>
  and \<^verbatim>\<open>listPrompts(): Promise<{ prompts: any[] }>\<close>: the client checks the result of
  the child before the promise resolves, and a result whose member is not an array
  rejects it.
\<close>

definition validated :: "js_error \<Rightarrow> js_error + 'a js_field \<Rightarrow> js_error + 'a js_field" where
  "validated invalid answer =
     (case answer of
        Inl e \<Rightarrow> Inl e
      | Inr NotAnArray \<Rightarrow> Inl invalid
      | Inr (Array xs) \<Rightarrow> Inr (Array xs))"

definition client_listTools :: "child_process \<Rightarrow> js_error + ClientToolResponse js_field" where
  "client_listTools ch = validated (invalid_result ch) (listTools ch)"

definition client_listResources ::
  "child_process \<Rightarrow> js_error + ClientResourceResponse js_field" where
  "client_listResources ch = validated (invalid_result ch) (listResources ch)"

definition client_listPrompts :: "child_process \<Rightarrow> js_error + ClientPromptResponse js_field" where
  "client_listPrompts ch = validated (invalid_result ch) (listPrompts ch)"

datatype category = Tools | Resources | Prompts

text \<open>The lines written with \<open>console.warn\<close> and \<open>console.error\<close>.\<close>

datatype log_entry =
    Error_failed_to_spawn ustring
  | Error_listing ustring category
  | Warn_not_an_array ustring category
  | Error_rebuilding category
  | Warn_rebuild_not_an_array category

record ServerManager =
  config :: "McpRouterConfig option"
  spawnedServers :: "(ustring \<times> client) list"
  unifiedTools :: "UnifiedToolMetadata list"
  unifiedResources :: "UnifiedResourceMetadata list"
  unifiedPrompts :: "UnifiedPromptMetadata list"
  console :: "log_entry list"

definition new_ServerManager :: ServerManager where
  "new_ServerManager =
     \<lparr>config = None, spawnedServers = [], unifiedTools = [], unifiedResources = [],
      unifiedPrompts = [], console = []\<rparr>"

text \<open>\<open>x || d\<close> for an optional string: the default replaces \<open>undefined\<close> and \<open>""\<close>.\<close>

definition or_default :: "ustring option \<Rightarrow> ustring \<Rightarrow> ustring" where
  "or_default x d = (case x of None \<Rightarrow> d | Some s \<Rightarrow> if s = [] then d else s)"

text \<open>\<open>resource.name || undefined\<close>.\<close>

definition or_undefined :: "ustring option \<Rightarrow> ustring option" where
  "or_undefined x = (case x of None \<Rightarrow> None | Some s \<Rightarrow> if s = [] then None else Some s)"

text \<open>
  \<open>schema ? JSON.parse(JSON.stringify(schema)) : undefined\<close>: a falsy schema becomes
  \<open>undefined\<close>; the copy of a JSON value is the same value.
\<close>

definition clone_schema :: "jsval option \<Rightarrow> jsval option" where
  "clone_schema x = (case x of None \<Rightarrow> None | Some v \<Rightarrow> if truthy v then Some v else None)"

definition unify_tool :: "ustring \<Rightarrow> ClientToolResponse \<Rightarrow> UnifiedToolMetadata" where
  "unify_tool serverName tool =
     \<lparr>ut_name = serverName @ js ''_'' @ ct_name tool,
      ut_title = or_default (ct_title tool) (serverName @ js ''_'' @ ct_name tool),
      ut_description = ct_description tool,
      ut_inputSchema = clone_schema (ct_inputSchema tool),
      ut_serverName = serverName,
      ut_originalToolName = ct_name tool\<rparr>"

definition unify_resource ::
  "ustring \<Rightarrow> ClientResourceResponse \<Rightarrow> UnifiedResourceMetadata" where
  "unify_resource serverName resource =
     \<lparr>ur_name = or_undefined (cr_name resource),
      ur_uri = serverName @ js ''_'' @ cr_uri resource,
      ur_title = or_default (cr_title resource) (serverName @ js ''_'' @ cr_uri resource),
      ur_description = cr_description resource,
      ur_mimeType = cr_mimeType resource,
      ur_serverName = serverName,
      ur_originalResourceUri = cr_uri resource\<rparr>"

definition unify_prompt :: "ustring \<Rightarrow> ClientPromptResponse \<Rightarrow> UnifiedPromptMetadata" where
  "unify_prompt serverName prompt =
     \<lparr>up_name = serverName @ js ''_'' @ cp_name prompt,
      up_title = or_default (cp_title prompt) (serverName @ js ''_'' @ cp_name prompt),
      up_description = cp_description prompt,
      up_argsSchema = clone_schema (cp_argsSchema prompt),
      up_serverName = serverName,
      up_originalPromptName = cp_name prompt\<rparr>"

subsection \<open>spawnServers\<close>

text \<open>
  One of the three \<open>try\<close> blocks of discovery:
  \<^verbatim>\<open>const response = await client.listTools();
  tools = Array.isArray(response.tools) ? response.tools : [];
  if (!Array.isArray(tools)) console.warn(...);\<close>
  with \<open>console.error\<close> in the \<open>catch\<close>. \<open>answer\<close> is what the promise of the
  client yields; the result is the value of the local variable and the lines logged.
\<close>

definition discover ::
  "ustring \<Rightarrow> category \<Rightarrow> js_error + 'a js_field \<Rightarrow> 'a js_field \<times> log_entry list" where
  "discover serverName cat answer =
     (case answer of
        Inl listError \<Rightarrow> (Array [], [Error_listing serverName cat])
      | Inr response_field \<Rightarrow>
          (let found = (if Array_isArray response_field then response_field else Array [])
           in (found, if \<not> Array_isArray found then [Warn_not_an_array serverName cat] else [])))"

definition client_of :: "ustring \<Rightarrow> child_process \<Rightarrow> client" where
  "client_of serverName ch =
     \<lparr>client_name = serverName, callTool = answers_callTool ch,
      readResource = answers_readResource ch\<rparr>"

text \<open>
  The body of the loop of \<open>spawnServers\<close> for one configured server. \<open>world\<close> gives
  the process that the configured command turns out to be. The server is entered into
  \<open>spawnedServers\<close> before \<open>connect\<close>; an exception from \<open>spawn\<close> or \<open>connect\<close>
  is caught and logged. No child closes while the loop runs.
\<close>

definition spawn_server ::
  "(ustring \<Rightarrow> child_process) \<Rightarrow> ServerManager \<Rightarrow> ustring \<times> McpServerConfig \<Rightarrow> ServerManager" where
  "spawn_server world sm entry =
     (case entry of (serverName, serverConfig) \<Rightarrow>
        if disabled serverConfig = Some True then sm
        else (case spawn_throws (world serverName) of
                Some e \<Rightarrow> sm\<lparr>console := console sm @ [Error_failed_to_spawn serverName]\<rparr>
              | None \<Rightarrow>
                 (let sm1 = sm\<lparr>spawnedServers :=
                              AList.update serverName (client_of serverName (world serverName))
                                (spawnedServers sm)\<rparr>
                  in case connect_rejects (world serverName) of
                       Some e \<Rightarrow> sm1\<lparr>console := console sm1 @ [Error_failed_to_spawn serverName]\<rparr>
                     | None \<Rightarrow>
                        (case discover serverName Tools (client_listTools (world serverName)) of
                           (tools, log1) \<Rightarrow>
                        (case discover serverName Resources (client_listResources (world serverName)) of
                           (resources, log2) \<Rightarrow>
                        (case discover serverName Prompts (client_listPrompts (world serverName)) of
                           (prompts, log3) \<Rightarrow>
                             sm1\<lparr>unifiedTools :=
                                   unifiedTools sm1 @ map (unify_tool serverName) (elements tools),
                                 unifiedResources :=
                                   unifiedResources sm1
                                     @ map (unify_resource serverName) (elements resources),
                                 unifiedPrompts :=
                                   unifiedPrompts sm1
                                     @ map (unify_prompt serverName) (elements prompts),
                                 console := console sm1 @ log1 @ log2 @ log3\<rparr>))))))"

definition spawnServers ::
  "(ustring \<Rightarrow> child_process) \<Rightarrow> ServerManager \<Rightarrow> js_error + ServerManager" where
  "spawnServers world sm =
     (case config sm of
        None \<Rightarrow> Inl (Error (Some (js ''Configuration not loaded. Call loadConfig() first.'')))
      | Some cfg \<Rightarrow> Inr (foldl (spawn_server world) sm (mcpServers cfg)))"

definition getUnifiedTools :: "ServerManager \<Rightarrow> UnifiedToolMetadata list" where
  "getUnifiedTools sm = unifiedTools sm"

definition getUnifiedResources :: "ServerManager \<Rightarrow> UnifiedResourceMetadata list" where
  "getUnifiedResources sm = unifiedResources sm"

definition getUnifiedPrompts :: "ServerManager \<Rightarrow> UnifiedPromptMetadata list" where
  "getUnifiedPrompts sm = unifiedPrompts sm"

definition getSpawnedServer :: "ServerManager \<Rightarrow> ustring \<Rightarrow> client option" where
  "getSpawnedServer sm serverName = map_of (spawnedServers sm) serverName"

subsection \<open>What startup puts into the collections\<close>

text \<open>The ServerManager after \<open>spawnServers\<close> has run on a loaded configuration.\<close>

definition started :: "(ustring \<Rightarrow> child_process) \<Rightarrow> McpRouterConfig \<Rightarrow> ServerManager" where
  "started world cfg =
     foldl (spawn_server world) (new_ServerManager\<lparr>config := Some cfg\<rparr>) (mcpServers cfg)"

text \<open>
  The capabilities that the loop body adds for one configured server: none when the server
  is disabled or when \<open>spawn\<close> or \<open>connect\<close> fails, otherwise the elements of the
  array found by discovery.
\<close>

definition discovered_tools ::
  "(ustring \<Rightarrow> child_process) \<Rightarrow> ustring \<times> McpServerConfig \<Rightarrow> ClientToolResponse list" where
  "discovered_tools world entry =
     (if disabled (snd entry) = Some True \<or> spawn_throws (world (fst entry)) \<noteq> None
         \<or> connect_rejects (world (fst entry)) \<noteq> None
      then []
      else elements (fst (discover (fst entry) Tools (client_listTools (world (fst entry))))))"

definition discovered_resources ::
  "(ustring \<Rightarrow> child_process) \<Rightarrow> ustring \<times> McpServerConfig \<Rightarrow> ClientResourceResponse list" where
  "discovered_resources world entry =
     (if disabled (snd entry) = Some True \<or> spawn_throws (world (fst entry)) \<noteq> None
         \<or> connect_rejects (world (fst entry)) \<noteq> None
      then []
      else elements (fst (discover (fst entry) Resources (client_listResources (world (fst entry))))))"

definition discovered_prompts ::
  "(ustring \<Rightarrow> child_process) \<Rightarrow> ustring \<times> McpServerConfig \<Rightarrow> ClientPromptResponse list" where
  "discovered_prompts world entry =
     (if disabled (snd entry) = Some True \<or> spawn_throws (world (fst entry)) \<noteq> None
         \<or> connect_rejects (world (fst entry)) \<noteq> None
      then []
      else elements (fst (discover (fst entry) Prompts (client_listPrompts (world (fst entry))))))"



subsection \<open>A child closes\<close>

text \<open>
  \<open>rebuildUnifiedCollections\<close> empties the three collections and asks every remaining
  client for its lists again, without waiting. The answers arrive later, one event each;
  the functions \<open>rebuilt_tools\<close>, \<open>rebuilt_resources\<close> and \<open>rebuilt_prompts\<close> are
  the \<open>then\<close>/\<open>catch\<close> callbacks, applied to what the promise of the client \<open>c\<close>
  yields.
\<close>

definition rebuildUnifiedCollections :: "ServerManager \<Rightarrow> ServerManager" where
  "rebuildUnifiedCollections sm =
     sm\<lparr>unifiedTools := [], unifiedResources := [], unifiedPrompts := []\<rparr>"

definition close_handler :: "ServerManager \<Rightarrow> ustring \<Rightarrow> ServerManager" where
  "close_handler sm serverName =
     rebuildUnifiedCollections
       (sm\<lparr>spawnedServers := AList.delete serverName (spawnedServers sm)\<rparr>)"

definition rebuilt_tools ::
  "ServerManager \<Rightarrow> client \<Rightarrow> js_error + ClientToolResponse js_field \<Rightarrow> ServerManager" where
  "rebuilt_tools sm c answer =
     (case answer of
        Inl e \<Rightarrow> sm\<lparr>console := console sm @ [Error_rebuilding Tools]\<rparr>
      | Inr response_field \<Rightarrow>
          (let rebuiltTools = (if Array_isArray response_field then response_field else Array [])
           in sm\<lparr>unifiedTools :=
                    unifiedTools sm @ map (unify_tool (client_name c)) (elements rebuiltTools),
                  console := console sm @
                    (if \<not> Array_isArray response_field then [Warn_rebuild_not_an_array Tools]
                     else [])\<rparr>))"

definition rebuilt_resources ::
  "ServerManager \<Rightarrow> client \<Rightarrow> js_error + ClientResourceResponse js_field \<Rightarrow> ServerManager" where
  "rebuilt_resources sm c answer =
     (case answer of
        Inl e \<Rightarrow> sm\<lparr>console := console sm @ [Error_rebuilding Resources]\<rparr>
      | Inr response_field \<Rightarrow>
          (let rebuiltResources =
                 (if Array_isArray response_field then response_field else Array [])
           in sm\<lparr>unifiedResources :=
                    unifiedResources sm
                      @ map (unify_resource (client_name c)) (elements rebuiltResources),
                  console := console sm @
                    (if \<not> Array_isArray response_field then [Warn_rebuild_not_an_array Resources]
                     else [])\<rparr>))"

definition rebuilt_prompts ::
  "ServerManager \<Rightarrow> client \<Rightarrow> js_error + ClientPromptResponse js_field \<Rightarrow> ServerManager" where
  "rebuilt_prompts sm c answer =
     (case answer of
        Inl e \<Rightarrow> sm\<lparr>console := console sm @ [Error_rebuilding Prompts]\<rparr>
      | Inr response_field \<Rightarrow>
          (let rebuiltPrompts = (if Array_isArray response_field then response_field else Array [])
           in sm\<lparr>unifiedPrompts :=
                    unifiedPrompts sm
                      @ map (unify_prompt (client_name c)) (elements rebuiltPrompts),
                  console := console sm @
                    (if \<not> Array_isArray response_field then [Warn_rebuild_not_an_array Prompts]
                     else [])\<rparr>))"

section \<open>The outward server: registration and handlers\<close>

text \<open>What a handler does for its caller: it returns a value or throws an \<open>Error\<close>.\<close>

datatype handler_result = Returns jsval | Throws ustring

text \<open>\<open>error.message || 'Unknown error'\<close>.\<close>

definition message_or_unknown :: "js_error \<Rightarrow> ustring" where
  "message_or_unknown e = or_default (message e) (js ''Unknown error'')"

definition not_running_message :: "ustring \<Rightarrow> ustring" where
  "not_running_message serverName =
     js ''Server '' @ [0x27] @ serverName @ [0x27] @ js '' not found or not running.''"

text \<open>
  The handler that \<open>main\<close> registers for a unified tool. It looks the server up when it
  is called, forwards the original name and the arguments, and returns what the child
  returned; when the call rejects, it returns the string built in the \<open>catch\<close> block.
\<close>

definition proxyHandler :: "ServerManager \<Rightarrow> UnifiedToolMetadata \<Rightarrow> jsval \<Rightarrow> handler_result" where
  "proxyHandler sm toolMetadata args =
     (case getSpawnedServer sm (ut_serverName toolMetadata) of
        None \<Rightarrow> Throws (not_running_message (ut_serverName toolMetadata))
      | Some serverEntry \<Rightarrow>
          (case callTool serverEntry
                  \<lparr>payload_name = ut_originalToolName toolMetadata, payload_arguments = args\<rparr> of
             Inr rawResult \<Rightarrow> Returns rawResult
           | Inl error \<Rightarrow> Returns (JStr (js ''Error: '' @ message_or_unknown error))))"






text \<open>
  The handler of the tool \<open>add\<close>: \<open>addition\<close> is \<open>+\<close> on two numbers (the sum
  of two doubles, rounded), \<open>String\<close> the conversion of a number to a string.
\<close>

definition add_handler :: "(rat \<Rightarrow> rat \<Rightarrow> rat) \<Rightarrow> (rat \<Rightarrow> ustring) \<Rightarrow> rat \<Rightarrow> rat \<Rightarrow> jsval" where
  "add_handler addition String a b =
     JObj [(js ''content'',
              JArr [JObj [(js ''type'', JStr (js ''text'')),
                          (js ''text'', JStr (String (addition a b)))]])]"

subsection \<open>convertJsonSchemaToZod\<close>

text \<open>
  The zod schemas that the conversion builds: \<open>z.string()\<close>, \<open>z.number()\<close>,
  \<open>z.boolean()\<close>, \<open>z.array(z.any())\<close> and \<open>z.any()\<close>. A raw shape is an object
  from property names to such schemas.
\<close>

datatype zod = ZString | ZNumber | ZBoolean | ZArray_any | ZAny

type_synonym ZodRawShape = "(ustring \<times> zod) list"

text \<open>
  What \<open>main\<close> can meet before it has registered everything: the TypeError of reading
  \<open>type\<close> of \<open>undefined\<close> or \<open>null\<close>, and the Error with which the SDK server
  refuses a name or URI that it has registered already.
\<close>

datatype thrown = TypeError | Already_registered category ustring

text \<open>The decimal numeral of an array index.\<close>

function decimal :: "nat \<Rightarrow> ustring" where
  "decimal n =
     (if n < 10 then [of_nat (48 + n)] else decimal (n div 10) @ [of_nat (48 + n mod 10)])"
  by pat_completeness auto

termination
  by (relation "measure id") auto

declare decimal.simps [simp del]

text \<open>
  \<open>for (const key in v)\<close> with \<open>v[key]\<close>: the properties of an object in property
  order, the indices of an array or of a string, nothing for a number or a boolean.
\<close>

fun for_in :: "jsval \<Rightarrow> (ustring \<times> jsval) list" where
  "for_in (JObj kvs) = kvs"
| "for_in (JArr xs) = map (\<lambda>i. (decimal i, xs ! i)) [0..<length xs]"
| "for_in (JStr s) = map (\<lambda>i. (decimal i, JStr [s ! i])) [0..<length s]"
| "for_in v = []"

text \<open>The chain of tests on \<open>prop.type\<close>; reading it throws when \<open>prop\<close> has no properties.\<close>

fun zod_of :: "jsval \<Rightarrow> thrown + zod" where
  "zod_of JUndefined = Inl TypeError"
| "zod_of JNull = Inl TypeError"
| "zod_of prop =
     Inr (if named_prop prop (js ''type'') = JStr (js ''string'') then ZString
          else if named_prop prop (js ''type'') = JStr (js ''number'')
                  \<or> named_prop prop (js ''type'') = JStr (js ''integer'') then ZNumber
          else if named_prop prop (js ''type'') = JStr (js ''boolean'') then ZBoolean
          else if named_prop prop (js ''type'') = JStr (js ''array'') then ZArray_any
          else ZAny)"

text \<open>The loop over the properties, \<open>shape[key] = \<dots>\<close> for each.\<close>

fun shape_loop :: "ZodRawShape \<Rightarrow> (ustring \<times> jsval) list \<Rightarrow> thrown + ZodRawShape" where
  "shape_loop shape [] = Inr shape"
| "shape_loop shape ((key, prop) # properties) =
     (case zod_of prop of
        Inl e \<Rightarrow> Inl e
      | Inr z \<Rightarrow> shape_loop (AList.update key z shape) properties)"

text \<open>\<open>typeof v === 'object'\<close>.\<close>

fun typeof_object :: "jsval \<Rightarrow> bool" where
  "typeof_object JNull = True"
| "typeof_object (JArr xs) = True"
| "typeof_object (JObj kvs) = True"
| "typeof_object v = False"

text \<open>
  \<open>convertJsonSchemaToZod\<close> returns \<open>undefined\<close> (\<open>None\<close>) unless the schema is an
  object whose \<open>type\<close> is \<open>'object'\<close> and whose \<open>properties\<close> is truthy; then it
  returns the shape built by the loop.
\<close>

definition convertJsonSchemaToZod :: "jsval \<Rightarrow> thrown + ZodRawShape option" where
  "convertJsonSchemaToZod jsonSchema =
     (if truthy jsonSchema \<and> typeof_object jsonSchema
         \<and> named_prop jsonSchema (js ''type'') = JStr (js ''object'')
         \<and> truthy (named_prop jsonSchema (js ''properties''))
      then (case shape_loop [] (for_in (named_prop jsonSchema (js ''properties''))) of
              Inl e \<Rightarrow> Inl e
            | Inr shape \<Rightarrow> Inr (Some shape))
      else Inr None)"

text \<open>\<open>schema ? convertJsonSchemaToZod(schema) : undefined\<close>, for an optional member.\<close>

definition converted :: "jsval option \<Rightarrow> thrown + ZodRawShape option" where
  "converted schema =
     (case schema of
        None \<Rightarrow> Inr None
      | Some v \<Rightarrow> if truthy v then convertJsonSchemaToZod v else Inr None)"

subsection \<open>Registration\<close>

text \<open>
  What the SDK server holds after \<open>registerTool\<close>, \<open>registerResource\<close> and
  \<open>registerPrompt\<close>, in the order of the calls; it answers \<open>tools/list\<close>,
  \<open>resources/list\<close> and \<open>prompts/list\<close> from it. A handler is a closure over the
  metadata of its capability: \<open>ProxyHandler m\<close> stands for \<open>proxyHandler\<close> with the
  metadata \<open>m\<close>, \<open>AddHandler\<close> for \<open>add_handler\<close>, and the handler of a resource or
  prompt is given by its metadata in the same way. The second argument of
  \<open>registerResource\<close> is the URI of the resource, the first its name.
\<close>

datatype tool_handler = ProxyHandler UnifiedToolMetadata | AddHandler

record RegisteredTool =
  rt_name :: ustring
  rt_title :: ustring
  rt_description :: "ustring option"
  rt_inputSchema :: "ZodRawShape option"
  rt_handler :: tool_handler

record RegisteredResource =
  rr_name :: ustring
  rr_uri :: ustring
  rr_title :: ustring
  rr_description :: "ustring option"
  rr_mimeType :: "ustring option"
  rr_handler :: UnifiedResourceMetadata

record RegisteredPrompt =
  rp_name :: ustring
  rp_title :: ustring
  rp_description :: "ustring option"
  rp_argsSchema :: "ZodRawShape option"
  rp_handler :: UnifiedPromptMetadata

text \<open>
  The three registration methods of the SDK server throw when the name of the tool, the
  URI of the resource or the name of the prompt is registered already.
\<close>

definition registerTool :: "RegisteredTool list \<Rightarrow> RegisteredTool \<Rightarrow> thrown + RegisteredTool list" where
  "registerTool registered tool =
     (if rt_name tool \<in> set (map rt_name registered)
      then Inl (Already_registered Tools (rt_name tool))
      else Inr (registered @ [tool]))"

definition registerResource ::
  "RegisteredResource list \<Rightarrow> RegisteredResource \<Rightarrow> thrown + RegisteredResource list" where
  "registerResource registered resource =
     (if rr_uri resource \<in> set (map rr_uri registered)
      then Inl (Already_registered Resources (rr_uri resource))
      else Inr (registered @ [resource]))"

definition registerPrompt ::
  "RegisteredPrompt list \<Rightarrow> RegisteredPrompt \<Rightarrow> thrown + RegisteredPrompt list" where
  "registerPrompt registered prompt =
     (if rp_name prompt \<in> set (map rp_name registered)
      then Inl (Already_registered Prompts (rp_name prompt))
      else Inr (registered @ [prompt]))"

text \<open>The arguments of the calls that \<open>main\<close> makes.\<close>

definition register_proxy :: "UnifiedToolMetadata \<Rightarrow> ZodRawShape option \<Rightarrow> RegisteredTool" where
  "register_proxy toolMetadata inputSchema =
     \<lparr>rt_name = ut_name toolMetadata, rt_title = ut_title toolMetadata,
      rt_description = ut_description toolMetadata, rt_inputSchema = inputSchema,
      rt_handler = ProxyHandler toolMetadata\<rparr>"

definition register_add :: RegisteredTool where
  "register_add =
     \<lparr>rt_name = js ''add'', rt_title = js ''Addition Tool'',
      rt_description = Some (js ''Add two numbers''),
      rt_inputSchema = Some [(js ''a'', ZNumber), (js ''b'', ZNumber)],
      rt_handler = AddHandler\<rparr>"

definition register_resource :: "UnifiedResourceMetadata \<Rightarrow> RegisteredResource" where
  "register_resource resourceMetadata =
     \<lparr>rr_name = ur_uri resourceMetadata, rr_uri = ur_originalResourceUri resourceMetadata,
      rr_title = ur_title resourceMetadata, rr_description = ur_description resourceMetadata,
      rr_mimeType = ur_mimeType resourceMetadata, rr_handler = resourceMetadata\<rparr>"

definition register_prompt :: "UnifiedPromptMetadata \<Rightarrow> ZodRawShape option \<Rightarrow> RegisteredPrompt" where
  "register_prompt promptMetadata argsSchema =
     \<lparr>rp_name = up_name promptMetadata, rp_title = up_title promptMetadata,
      rp_description = up_description promptMetadata, rp_argsSchema = argsSchema,
      rp_handler = promptMetadata\<rparr>"

text \<open>
  The three \<open>forEach\<close> loops of \<open>main\<close>. The body of the first registers the proxy of
  the tool and then the tool \<open>add\<close>. An exception ends the loop and \<open>main\<close>.
\<close>

fun register_tools ::
  "RegisteredTool list \<Rightarrow> UnifiedToolMetadata list \<Rightarrow> thrown + RegisteredTool list" where
  "register_tools registered [] = Inr registered"
| "register_tools registered (toolMetadata # rest) =
     (case converted (ut_inputSchema toolMetadata) of
        Inl e \<Rightarrow> Inl e
      | Inr inputSchema \<Rightarrow>
          (case registerTool registered (register_proxy toolMetadata inputSchema) of
             Inl e \<Rightarrow> Inl e
           | Inr registered1 \<Rightarrow>
               (case registerTool registered1 register_add of
                  Inl e \<Rightarrow> Inl e
                | Inr registered2 \<Rightarrow> register_tools registered2 rest)))"

fun register_resources ::
  "RegisteredResource list \<Rightarrow> UnifiedResourceMetadata list \<Rightarrow> thrown + RegisteredResource list" where
  "register_resources registered [] = Inr registered"
| "register_resources registered (resourceMetadata # rest) =
     (case registerResource registered (register_resource resourceMetadata) of
        Inl e \<Rightarrow> Inl e
      | Inr registered1 \<Rightarrow> register_resources registered1 rest)"

fun register_prompts ::
  "RegisteredPrompt list \<Rightarrow> UnifiedPromptMetadata list \<Rightarrow> thrown + RegisteredPrompt list" where
  "register_prompts registered [] = Inr registered"
| "register_prompts registered (promptMetadata # rest) =
     (case converted (up_argsSchema promptMetadata) of
        Inl e \<Rightarrow> Inl e
      | Inr argsSchema \<Rightarrow>
          (case registerPrompt registered (register_prompt promptMetadata argsSchema) of
             Inl e \<Rightarrow> Inl e
           | Inr registered1 \<Rightarrow> register_prompts registered1 rest))"

record router =
  manager :: ServerManager
  registeredTools :: "RegisteredTool list"
  registeredResources :: "RegisteredResource list"
  registeredPrompts :: "RegisteredPrompt list"

text \<open>
  \<open>main\<close> after a successful \<open>loadConfig\<close>: the servers are spawned, then everything in
  the unified collections is registered, once. \<open>None\<close>: \<open>main\<close> rejects, and the
  outward server does not come up.
\<close>

definition main :: "(ustring \<Rightarrow> child_process) \<Rightarrow> McpRouterConfig \<Rightarrow> router option" where
  "main world cfg =
     (case spawnServers world (new_ServerManager\<lparr>config := Some cfg\<rparr>) of
        Inl e \<Rightarrow> None
      | Inr sm \<Rightarrow>
          (case register_tools [] (getUnifiedTools sm) of
             Inl e \<Rightarrow> None
           | Inr tools \<Rightarrow>
               (case register_resources [] (getUnifiedResources sm) of
                  Inl e \<Rightarrow> None
                | Inr resources \<Rightarrow>
                    (case register_prompts [] (getUnifiedPrompts sm) of
                       Inl e \<Rightarrow> None
                     | Inr prompts \<Rightarrow>
                         Some \<lparr>manager = sm, registeredTools = tools,
                               registeredResources = resources,
                               registeredPrompts = prompts\<rparr>))))"

text \<open>
  The router that \<open>main\<close> sets out to build: the ServerManager after \<open>spawnServers\<close>
  and the arguments of all the registration calls, in order, as they are when no call
  throws (a schema whose conversion throws is left out). When \<open>main\<close> does not reject,
  this is the router it has set up.
\<close>

definition shape_or_undefined :: "thrown + ZodRawShape option \<Rightarrow> ZodRawShape option" where
  "shape_or_undefined c = (case c of Inl e \<Rightarrow> None | Inr shape \<Rightarrow> shape)"

definition startup :: "(ustring \<Rightarrow> child_process) \<Rightarrow> McpRouterConfig \<Rightarrow> router" where
  "startup world cfg =
     \<lparr>manager = started world cfg,
      registeredTools =
        concat (map (\<lambda>toolMetadata.
                       [register_proxy toolMetadata
                          (shape_or_undefined (converted (ut_inputSchema toolMetadata))),
                        register_add])
                  (unifiedTools (started world cfg))),
      registeredResources = map register_resource (unifiedResources (started world cfg)),
      registeredPrompts =
        map (\<lambda>promptMetadata.
               register_prompt promptMetadata
                 (shape_or_undefined (converted (up_argsSchema promptMetadata))))
          (unifiedPrompts (started world cfg))\<rparr>"

text \<open>
  After startup a \<open>close\<close> event of a child process runs the close handler of the
  ServerManager; nothing else in the router reacts to it.
\<close>

definition child_closes :: "router \<Rightarrow> ustring \<Rightarrow> router" where
  "child_closes r serverName = r\<lparr>manager := close_handler (manager r) serverName\<rparr>"

definition tools_list :: "router \<Rightarrow> ustring list" where
  "tools_list r = map rt_name (registeredTools r)"

definition resources_list :: "router \<Rightarrow> ustring list" where
  "resources_list r = map rr_uri (registeredResources r)"

subsection \<open>Dispatch\<close>

text \<open>
  How the SDK server serves \<open>tools/call\<close> and \<open>prompts/get\<close>: it looks the name up
  among the registered ones; when the capability was registered with a schema, the
  arguments of the request are parsed with it and the handler is called with the parsed
  arguments; when it was registered without one, the handler is called with the SDK's
  own \<open>extra\<close> object as its only argument. \<open>safeParse\<close> is the parser of
  \<open>z.object(shape)\<close> (\<open>None\<close>: the arguments do not pass).
\<close>

datatype 'h dispatch = Not_found | Invalid_params | Invoke 'h jsval

definition call_tool ::
  "(ZodRawShape \<Rightarrow> jsval \<Rightarrow> jsval option) \<Rightarrow> jsval \<Rightarrow> RegisteredTool list \<Rightarrow> ustring \<Rightarrow> jsval
     \<Rightarrow> tool_handler dispatch" where
  "call_tool safeParse extra registered name args =
     (case find (\<lambda>tool. rt_name tool = name) registered of
        None \<Rightarrow> Not_found
      | Some tool \<Rightarrow>
          (case rt_inputSchema tool of
             None \<Rightarrow> Invoke (rt_handler tool) extra
           | Some shape \<Rightarrow>
               (case safeParse shape args of
                  None \<Rightarrow> Invalid_params
                | Some parsed \<Rightarrow> Invoke (rt_handler tool) parsed)))"


section \<open>Sample data\<close>

text \<open>
  Four JSON texts and the objects they denote. \<open>json_parse_sample\<close> is the graph of
  \<open>JSON.parse\<close> on these texts and on \<open>{}\<close>; the other texts it is applied to below
  (the empty string, \<open>nonsense\<close>) are not JSON, and \<open>JSON.parse\<close> throws on them.
  \<open>text_accent\<close> is \<open>{"a":"\<dots>"}\<close> with the letter e acute (U+00E9) as the string,
  \<open>text_replaced\<close> the same with two replacement characters in its place;
  \<open>bytes_accent\<close> is the UTF-8 encoding of \<open>text_accent\<close> and a newline, in which the
  letter takes the two bytes C3 A9. \<open>ascii_bytes\<close> is the UTF-8 encoding of a text of
  ASCII characters.
\<close>

definition text_null_result :: ustring where
  \<open>text_null_result = js ''{"jsonrpc":"2.0","id":1,"result":{"structuredContent":null}}''\<close>

definition msg_null_result :: jsval where
  "msg_null_result =
     JObj [(js ''jsonrpc'', JStr (js ''2.0'')), (js ''id'', JNum 1),
           (js ''result'', JObj [(js ''structuredContent'', JNull)])]"

definition text_content_result :: ustring where
  \<open>text_content_result = js ''{"jsonrpc":"2.0","id":2,"result":{"content":[]}}''\<close>

definition msg_content_result :: jsval where
  "msg_content_result =
     JObj [(js ''jsonrpc'', JStr (js ''2.0'')), (js ''id'', JNum 2),
           (js ''result'', JObj [(js ''content'', JArr [])])]"

definition text_accent :: ustring where
  \<open>text_accent = js ''{"a":"'' @ [0xE9] @ js ''"}''\<close>

definition msg_accent :: jsval where
  "msg_accent = JObj [(js ''a'', JStr [0xE9])]"

definition text_replaced :: ustring where
  \<open>text_replaced = js ''{"a":"'' @ [0xFFFD, 0xFFFD] @ js ''"}''\<close>

definition msg_replaced :: jsval where
  "msg_replaced = JObj [(js ''a'', JStr [0xFFFD, 0xFFFD])]"

definition bytes_accent :: "byte list" where
  "bytes_accent = [0x7B, 0x22, 0x61, 0x22, 0x3A, 0x22, 0xC3, 0xA9, 0x22, 0x7D, 0x0A]"

definition ascii_bytes :: "ustring \<Rightarrow> byte list" where
  "ascii_bytes s = map ucast s"

definition json_parse_sample :: "ustring \<Rightarrow> jsval option" where
  "json_parse_sample =
     map_of [(text_null_result, msg_null_result), (text_content_result, msg_content_result),
             (text_accent, msg_accent), (text_replaced, msg_replaced),
             (js ''{}'', JObj [])]"

definition transport0 :: transport where
  "transport0 = \<lparr>buffer = [], has_onmessage = True, has_onerror = True\<rparr>"

subsection \<open>Sample children\<close>

definition enabled :: McpServerConfig where
  "enabled = \<lparr>disabled = None, command = js ''node'', command_args = []\<rparr>"

definition ping_tool :: ClientToolResponse where
  "ping_tool =
     \<lparr>ct_name = js ''ping'', ct_title = None, ct_description = None,
      ct_inputSchema =
        Some (JObj [(js ''type'', JStr (js ''object'')), (js ''properties'', JObj [])])\<rparr>"

definition flaky :: child_process where
  "flaky = \<lparr>spawn_throws = None, connect_rejects = None,
             listTools = Inr (Array [ping_tool]), listResources = Inr (Array []),
             listPrompts = Inr (Array []),
             invalid_result = Error (Some (js ''invalid result'')),
             answers_callTool = (\<lambda>p. Inl (Error (Some (js ''boom'')))),
             answers_readResource = (\<lambda>u. Inl (Error None))\<rparr>"

definition flaky_config :: McpRouterConfig where
  "flaky_config = \<lparr>mcpServers = [(js ''flaky'', enabled)]\<rparr>"

definition greet_prompt :: ClientPromptResponse where
  "greet_prompt =
     \<lparr>cp_name = js ''greet'', cp_title = None, cp_description = None,
      cp_argsSchema =
        Some (JObj [(js ''type'', JStr (js ''object'')),
                    (js ''properties'',
                       JObj [(js ''name'', JObj [(js ''type'', JStr (js ''string''))])])])\<rparr>"

definition partial_child :: child_process where
  "partial_child = \<lparr>spawn_throws = None, connect_rejects = None,
             listTools = Inr NotAnArray,
             listResources = Inl (Error (Some (js ''Method not found''))),
             listPrompts = Inr (Array [greet_prompt]),
             invalid_result = Error (Some (js ''invalid result'')),
             answers_callTool = (\<lambda>p. Inr (JObj [(js ''content'', JArr [])])),
             answers_readResource = (\<lambda>u. Inl (Error None))\<rparr>"

definition partial_config :: McpRouterConfig where
  "partial_config = \<lparr>mcpServers = [(js ''partial'', enabled)]\<rparr>"

definition table_resource :: ClientResourceResponse where
  "table_resource = \<lparr>cr_uri = js ''db://tables'', cr_name = Some (js ''tables''),
                      cr_title = None, cr_description = None, cr_mimeType = None\<rparr>"

definition query_tool :: ClientToolResponse where
  "query_tool =
     \<lparr>ct_name = js ''query'', ct_title = None, ct_description = None,
      ct_inputSchema =
        Some (JObj [(js ''type'', JStr (js ''object'')),
                    (js ''properties'',
                       JObj [(js ''sql'', JObj [(js ''type'', JStr (js ''string''))])])])\<rparr>"

definition rows_result :: jsval where
  "rows_result =
     JObj [(js ''content'', JArr [JObj [(js ''type'', JStr (js ''text'')),
                                       (js ''text'', JStr (js ''3 rows''))]])]"

definition db :: child_process where
  "db = \<lparr>spawn_throws = None, connect_rejects = None,
          listTools = Inr (Array [query_tool]),
          listResources = Inr (Array [table_resource]),
          listPrompts = Inr (Array [greet_prompt]),
          invalid_result = Error (Some (js ''invalid result'')),
          answers_callTool = (\<lambda>p. Inr rows_result),
          answers_readResource = (\<lambda>u. Inr (JObj [(js ''contents'', JArr [])]))\<rparr>"

definition db_config :: McpRouterConfig where
  "db_config = \<lparr>mcpServers = [(js ''db'', enabled)]\<rparr>"

definition two_servers_world :: "ustring \<Rightarrow> child_process" where
  "two_servers_world serverName = (if serverName = js ''db'' then db else flaky)"

definition two_servers_config :: McpRouterConfig where
  "two_servers_config = \<lparr>mcpServers = [(js ''db'', enabled), (js ''flaky'', enabled)]\<rparr>"

definition tool_named :: "ustring \<Rightarrow> ClientToolResponse" where
  "tool_named n = \<lparr>ct_name = n, ct_title = None, ct_description = None,
                    ct_inputSchema = Some (JObj [(js ''type'', JStr (js ''object''))])\<rparr>"

definition child_with_tool :: "ustring \<Rightarrow> child_process" where
  "child_with_tool n =
     \<lparr>spawn_throws = None, connect_rejects = None,
      listTools = Inr (Array [tool_named n]), listResources = Inr (Array []),
      listPrompts = Inr (Array []),
      invalid_result = Error (Some (js ''invalid result'')),
      answers_callTool = (\<lambda>p. Inr (JObj [])),
      answers_readResource = (\<lambda>u. Inl (Error None))\<rparr>"



definition plain_config :: McpRouterConfig where
  "plain_config = \<lparr>mcpServers = [(js ''a'', enabled)]\<rparr>"



section \<open>The structuredContent correction\<close>

lemma value_at_undefined [simp]: "value_at JUndefined p = JUndefined"
  by (induction p) auto

lemma value_at_null_cons [simp]: "value_at JNull (s # p) = JUndefined"
  by simp

lemma value_at_empty_obj_cons [simp]: "value_at (JObj []) (s # p) = JUndefined"
  by (cases s) simp_all

lemma child_empty_obj [simp]: "child (JObj []) s = JUndefined"
  by (cases s) simp_all

lemma js_result_neq: "js ''jsonrpc'' \<noteq> js ''result''"
  by (simp add: js_def)








section \<open>Framing\<close>

lemma indexOf_absent: "c \<notin> set s \<Longrightarrow> indexOf s c = None"
  by (induction s) auto

lemma indexOf_first: "c \<notin> set l \<Longrightarrow> indexOf (l @ c # rest) c = Some (length l)"
  by (induction l) auto

lemma deliver_buffer [simp]: "deliver parse (t\<lparr>buffer := b\<rparr>) line = deliver parse t line"
  by (simp add: deliver_def split: option.splits)

lemma line_events_buffer [simp]:
  "line_events parse (t\<lparr>buffer := b\<rparr>) l = line_events parse t l"
  by (simp add: line_events_def)

lemma process_buffer_no_newline:
  "newline \<notin> set (buffer t) \<Longrightarrow> process_buffer parse t = ([], t)"
  by (subst process_buffer.simps) (simp add: indexOf_absent)

lemma process_buffer_line:
  assumes "newline \<notin> set l"
  shows "process_buffer parse (t\<lparr>buffer := l @ newline # rest\<rparr>) =
     (case process_buffer parse (t\<lparr>buffer := rest\<rparr>) of
        (evs, t') \<Rightarrow> (line_events parse t l @ evs, t'))"
  using assms
  by (subst process_buffer.simps)
     (simp add: indexOf_first substring_def substring_from_def line_events_def Let_def
           split: prod.splits)

lemma process_buffer_framed:
  assumes "\<forall>l\<in>set ls. newline \<notin> set l"
  shows "process_buffer parse (t\<lparr>buffer := framed ls @ rest\<rparr>) =
     (case process_buffer parse (t\<lparr>buffer := rest\<rparr>) of
        (evs, t') \<Rightarrow> (concat (map (line_events parse t) ls) @ evs, t'))"
  using assms
proof (induction ls)
  case Nil
  then show ?case by (simp add: framed_def split: prod.splits)
next
  case (Cons l ls)
  then have "process_buffer parse (t\<lparr>buffer := framed (l # ls) @ rest\<rparr>) =
     (case process_buffer parse (t\<lparr>buffer := framed ls @ rest\<rparr>) of
        (evs, t') \<Rightarrow> (line_events parse t l @ evs, t'))"
    using process_buffer_line[where l = l and parse = parse and t = t and rest = "framed ls @ rest"]
    by (simp add: framed_def)
  with Cons show ?case by (simp split: prod.splits)
qed

lemma split_lines:
  "\<exists>ls r. s = framed ls @ r \<and> (\<forall>l\<in>set ls. newline \<notin> set l) \<and> newline \<notin> set r"
proof (induction s)
  case Nil
  have "[] = framed [] @ []" by (simp add: framed_def)
  then show ?case by (metis empty_iff list.set(1))
next
  case (Cons c s)
  then obtain ls r where s: "s = framed ls @ r" and ls: "\<forall>l\<in>set ls. newline \<notin> set l"
    and r: "newline \<notin> set r" by blast
  show ?case
  proof (cases "c = newline")
    case True
    with s have "c # s = framed ([] # ls) @ r" by (simp add: framed_def)
    moreover have "\<forall>l\<in>set ([] # ls). newline \<notin> set l" using ls by simp
    ultimately show ?thesis using r by blast
  next
    case False
    show ?thesis
    proof (cases ls)
      case Nil
      with s have "c # s = framed [] @ (c # r)" by (simp add: framed_def)
      moreover have "newline \<notin> set (c # r)" using r False by simp
      ultimately show ?thesis by (metis empty_iff list.set(1))
    next
      case (Cons l ls')
      with s have "c # s = framed ((c # l) # ls') @ r" by (simp add: framed_def)
      moreover have "\<forall>x\<in>set ((c # l) # ls'). newline \<notin> set x" using ls Cons False by simp
      ultimately show ?thesis using r by blast
    qed
  qed
qed

lemma feed_concat:
  "newline \<notin> set (buffer t) \<Longrightarrow>
   feed parse t chunks =
     process_buffer parse (t\<lparr>buffer := buffer t @ concat (map toString chunks)\<rparr>)"
proof (induction chunks arbitrary: t)
  case Nil
  then show ?case by (simp add: process_buffer_no_newline)
next
  case (Cons c cs)
  obtain ls r where s: "buffer t @ toString c = framed ls @ r" and ls: "\<forall>l\<in>set ls. newline \<notin> set l"
    and r: "newline \<notin> set r" using split_lines by blast
  have od: "on_data parse t c = (concat (map (line_events parse t) ls), t\<lparr>buffer := r\<rparr>)"
    using process_buffer_framed[OF ls, where parse = parse and t = t and rest = r] s r
    by (simp add: on_data_def process_buffer_no_newline)
  have "buffer t @ concat (map toString (c # cs)) = framed ls @ (r @ concat (map toString cs))"
    using s by simp
  then have "process_buffer parse (t\<lparr>buffer := buffer t @ concat (map toString (c # cs))\<rparr>) =
     process_buffer parse (t\<lparr>buffer := framed ls @ (r @ concat (map toString cs))\<rparr>)"
    by (rule arg_cong)
  also have "\<dots> = (case process_buffer parse (t\<lparr>buffer := r @ concat (map toString cs)\<rparr>) of
        (evs, t') \<Rightarrow> (concat (map (line_events parse t) ls) @ evs, t'))"
    by (rule process_buffer_framed[OF ls])
  finally show ?case using od r Cons.IH[of "t\<lparr>buffer := r\<rparr>"]
    by (simp split: prod.splits)
qed

lemma trim_id: "s \<noteq> [] \<Longrightarrow> \<not> is_js_whitespace (hd s) \<Longrightarrow> \<not> is_js_whitespace (last s) \<Longrightarrow> trim s = s"
proof -
  assume a: "s \<noteq> []" "\<not> is_js_whitespace (hd s)" "\<not> is_js_whitespace (last s)"
  then have 1: "dropWhile is_js_whitespace s = s" by (cases s) auto
  have dw: "dropWhile P xs = xs" if "xs \<noteq> []" "\<not> P (hd xs)" for P and xs :: ustring
    using that by (cases xs) auto
  from a have "rev s \<noteq> []" "hd (rev s) = last s" by (simp_all add: hd_rev)
  with a have "dropWhile is_js_whitespace (rev s) = rev s" by (intro dw) simp_all
  with 1 show ?thesis by (simp add: trim_def)
qed

lemma brace_not_whitespace: "\<not> is_js_whitespace 0x7B" "\<not> is_js_whitespace 0x7D"
  by (simp_all add: is_js_whitespace_def)

text \<open>
  What holds for every cutting into chunks whose decoded texts together are the text sent
  (every cut that falls between characters): the messages are delivered in order, each
  after the structuredContent correction.
\<close>

lemma framing_of_decoded_chunks:
  assumes cb: "has_onmessage t" and empty: "buffer t = []"
    and ser: "\<forall>m\<in>set msgs. parse (stringify m) = Some m \<and> newline \<notin> set (stringify m)
                 \<and> stringify m \<noteq> [] \<and> hd (stringify m) = 0x7B \<and> last (stringify m) = 0x7D"
    and chunks: "concat (map toString chunks) = concat (map (\<lambda>m. stringify m @ [newline]) msgs)"
  shows "feed parse t chunks = (map (\<lambda>m. OnMessage (correct_structuredContent m)) msgs, t)"
proof -
  have nl: "\<forall>l\<in>set (map stringify msgs). newline \<notin> set l" using ser by simp
  have ev: "line_events parse t (stringify m) = [OnMessage (correct_structuredContent m)]"
    if "m \<in> set msgs" for m
  proof -
    from that ser have "trim (stringify m) = stringify m"
      by (simp add: trim_id brace_not_whitespace)
    with that ser cb show ?thesis by (simp add: line_events_def deliver_def)
  qed
  have "concat (map (line_events parse t) (map stringify msgs)) =
        map (\<lambda>m. OnMessage (correct_structuredContent m)) msgs"
    using ev by (induction msgs) simp_all
  moreover have "concat (map toString chunks) = framed (map stringify msgs) @ []"
    using chunks by (simp add: framed_def comp_def)
  moreover have "t\<lparr>buffer := []\<rparr> = t" using empty by simp
  ultimately show ?thesis
    using feed_concat[of t parse chunks] empty
      process_buffer_framed[OF nl, where parse = parse and t = t and rest = "[]"]
    by (simp add: process_buffer_no_newline)
qed

lemma sample_texts:
  "json_parse_sample text_null_result = Some msg_null_result"
  "json_parse_sample text_content_result = Some msg_content_result"
  "newline \<notin> set text_null_result" "newline \<notin> set text_content_result"
  "hd text_null_result = 0x7B" "hd text_content_result = 0x7B"
  "last text_null_result = 0x7D" "last text_content_result = 0x7D"
  "text_null_result \<noteq> []" "text_content_result \<noteq> []"
  "msg_content_result \<noteq> msg_null_result"
  "json_parse_sample text_accent = Some msg_accent"
  "json_parse_sample text_replaced = Some msg_replaced"
  "newline \<notin> set text_accent" "newline \<notin> set text_replaced"
  "hd text_accent = 0x7B" "hd text_replaced = 0x7B"
  "last text_accent = 0x7D" "last text_replaced = 0x7D"
  "text_accent \<noteq> []" "text_replaced \<noteq> []"
  "msg_replaced \<noteq> msg_accent"
  "correct_structuredContent msg_accent = msg_accent"
  "correct_structuredContent msg_replaced = msg_replaced"
  by (simp_all add: json_parse_sample_def text_null_result_def text_content_result_def
        text_accent_def text_replaced_def msg_accent_def msg_replaced_def
        correct_structuredContent_def
        msg_null_result_def msg_content_result_def js_def newline_def)

lemma sample_bytes:
  "toString (ascii_bytes (text_content_result @ [newline] @ js ''nonsense'' @ [newline]
                            @ text_null_result @ [newline] @ js ''{''))
     = text_content_result @ [newline] @ js ''nonsense'' @ [newline]
         @ text_null_result @ [newline] @ js ''{''"
  "toString (ascii_bytes (js ''nonsense'' @ [newline] @ text_content_result @ [newline]))
     = js ''nonsense'' @ [newline] @ text_content_result @ [newline]"
  "toString [0x0A] = [newline]"
  "toString bytes_accent = text_accent @ [newline]"
  "toString (take 7 bytes_accent) @ toString (drop 7 bytes_accent) = text_replaced @ [newline]"
  by (simp_all add: toString_def ascii_bytes_def utf8_start_def utf16_def bytes_accent_def
        text_content_result_def text_null_result_def text_accent_def text_replaced_def
        js_def newline_def)

text \<open>
  C4. The object \<open>{"a":"\<dots>"}\<close> with the letter e acute is sent as eleven bytes. Given
  in one chunk it is delivered as sent. Cut after the seventh byte, between the two bytes
  of the letter, each chunk is decoded on its own, both halves of the letter become
  replacement characters, and a different message is delivered.
\<close>

theorem chunk_cut_inside_character:
  "toString bytes_accent = text_accent @ [newline]
   \<and> json_parse_sample text_accent = Some msg_accent
   \<and> feed json_parse_sample transport0 [bytes_accent] = ([OnMessage msg_accent], transport0)
   \<and> take 7 bytes_accent @ drop 7 bytes_accent = bytes_accent
   \<and> feed json_parse_sample transport0 [take 7 bytes_accent, drop 7 bytes_accent]
       = ([OnMessage msg_replaced], transport0)
   \<and> msg_replaced \<noteq> msg_accent"
proof -
  have t0: "newline \<notin> set (buffer transport0)" "transport0\<lparr>buffer := []\<rparr> = transport0"
    "has_onmessage transport0" "buffer transport0 = []"
    by (simp_all add: transport0_def)
  have line: "line_events json_parse_sample transport0 text_accent = [OnMessage msg_accent]"
    "line_events json_parse_sample transport0 text_replaced = [OnMessage msg_replaced]"
    by (simp_all add: line_events_def deliver_def trim_id sample_texts brace_not_whitespace t0)
  have whole: "feed json_parse_sample transport0 [bytes_accent] = ([OnMessage msg_accent], transport0)"
    using feed_concat[OF t0(1), of json_parse_sample "[bytes_accent]"]
      process_buffer_line[where l = text_accent and parse = json_parse_sample
        and t = transport0 and rest = "[]"]
    by (simp add: sample_bytes sample_texts process_buffer_no_newline line t0)
  have cut: "feed json_parse_sample transport0 [take 7 bytes_accent, drop 7 bytes_accent]
       = ([OnMessage msg_replaced], transport0)"
    using feed_concat[OF t0(1), of json_parse_sample "[take 7 bytes_accent, drop 7 bytes_accent]"]
      process_buffer_line[where l = text_replaced and parse = json_parse_sample
        and t = transport0 and rest = "[]"] sample_bytes(5)
    by (simp add: sample_texts process_buffer_no_newline line t0)
  from whole cut show ?thesis by (simp add: sample_bytes sample_texts)
qed

text \<open>
  C5. The transport takes the lines out of the decoded text. A line that \<open>JSON.parse\<close>
  rejects (the empty lines are skipped before parsing) produces one error event carrying
  the line and nothing else; the lines before it and after it, in the same chunk or in
  later ones, are handled as if it were not there, so every later line that parses is
  delivered to the message callback.
\<close>

theorem malformed_line_isolated:
  assumes cb: "has_onerror t" and buf: "newline \<notin> set (buffer t)"
    and lines: "\<forall>l\<in>set before. newline \<notin> set l" "newline \<notin> set bad"
      "\<forall>l\<in>set after. newline \<notin> set l" "newline \<notin> set rest"
    and bad: "trim bad \<noteq> []" "parse (trim bad) = None"
    and chunks: "buffer t @ concat (map toString chunks)
                   = framed before @ bad @ [newline] @ framed after @ rest"
  shows "feed parse t chunks =
     (concat (map (line_events parse t) before)
        @ [OnError (parse_error_message (trim bad))]
        @ concat (map (line_events parse t) after),
      t\<lparr>buffer := rest\<rparr>)
   \<and> (\<forall>l\<in>set after. \<forall>m. has_onmessage t \<and> trim l \<noteq> [] \<and> parse (trim l) = Some m \<longrightarrow>
          line_events parse t l = [OnMessage (correct_structuredContent m)])"
proof -
  have all: "\<forall>l\<in>set (before @ bad # after). newline \<notin> set l" using lines by auto
  have "buffer t @ concat (map toString chunks) = framed (before @ bad # after) @ rest"
    using chunks by (simp add: framed_def)
  then have "feed parse t chunks =
      process_buffer parse (t\<lparr>buffer := framed (before @ bad # after) @ rest\<rparr>)"
    using feed_concat[OF buf, of parse chunks] by simp
  also have "\<dots> = (concat (map (line_events parse t) (before @ bad # after)), t\<lparr>buffer := rest\<rparr>)"
    using process_buffer_framed[OF all, where parse = parse and t = t and rest = rest] lines(4)
    by (simp add: process_buffer_no_newline)
  finally have "feed parse t chunks =
      (concat (map (line_events parse t) (before @ bad # after)), t\<lparr>buffer := rest\<rparr>)" .
  moreover have "line_events parse t bad = [OnError (parse_error_message (trim bad))]"
    using bad cb by (simp add: line_events_def deliver_def)
  ultimately show ?thesis by (auto simp: line_events_def deliver_def)
qed

theorem malformed_line_isolated_witness:
  "has_onerror transport0 \<and> newline \<notin> set (buffer transport0)
   \<and> newline \<notin> set text_content_result \<and> newline \<notin> set (js ''nonsense'')
   \<and> newline \<notin> set text_null_result \<and> newline \<notin> set (js ''{'')
   \<and> trim (js ''nonsense'') \<noteq> [] \<and> json_parse_sample (trim (js ''nonsense'')) = None
   \<and> buffer transport0
        @ concat (map toString
            [ascii_bytes (text_content_result @ [newline] @ js ''nonsense'' @ [newline]
                            @ text_null_result @ [newline] @ js ''{'')])
       = framed [text_content_result] @ js ''nonsense'' @ [newline]
           @ framed [text_null_result] @ js ''{''
   \<and> has_onmessage transport0 \<and> trim text_null_result \<noteq> []
   \<and> json_parse_sample (trim text_null_result) = Some msg_null_result
   \<and> feed json_parse_sample transport0
        [ascii_bytes (text_content_result @ [newline] @ js ''nonsense'' @ [newline]
                        @ text_null_result @ [newline] @ js ''{'')]
       = ([OnMessage (correct_structuredContent msg_content_result),
           OnError (parse_error_message (js ''nonsense'')),
           OnMessage (correct_structuredContent msg_null_result)],
          transport0\<lparr>buffer := js ''{''\<rparr>)"
proof -
  have h1: "has_onerror transport0" "newline \<notin> set (buffer transport0)"
    by (simp_all add: transport0_def)
  have h2: "\<forall>l\<in>set [text_content_result]. newline \<notin> set l" "newline \<notin> set (js ''nonsense'')"
    "\<forall>l\<in>set [text_null_result]. newline \<notin> set l" "newline \<notin> set (js ''{'')"
    by (simp_all add: sample_texts) (simp_all add: js_def newline_def)
  have tr: "trim (js ''nonsense'') = js ''nonsense''"
    by (simp add: trim_def js_def is_js_whitespace_def)
  have h3: "trim (js ''nonsense'') \<noteq> []" "json_parse_sample (trim (js ''nonsense'')) = None"
    unfolding tr
    by (simp_all add: json_parse_sample_def text_null_result_def text_content_result_def
          text_accent_def text_replaced_def js_def)
  have h4: "buffer transport0
        @ concat (map toString
            [ascii_bytes (text_content_result @ [newline] @ js ''nonsense'' @ [newline]
                            @ text_null_result @ [newline] @ js ''{'')])
       = framed [text_content_result] @ js ''nonsense'' @ [newline]
           @ framed [text_null_result] @ js ''{''"
    using sample_bytes(1) by (simp add: framed_def transport0_def)
  have h5: "has_onmessage transport0" "trim text_null_result \<noteq> []"
    "json_parse_sample (trim text_null_result) = Some msg_null_result"
    "trim text_content_result \<noteq> []"
    "json_parse_sample (trim text_content_result) = Some msg_content_result"
    by (simp_all add: trim_id sample_texts brace_not_whitespace) (simp add: transport0_def)
  note T = malformed_line_isolated
    [where t = transport0 and parse = json_parse_sample and before = "[text_content_result]"
       and bad = "js ''nonsense''" and after = "[text_null_result]" and rest = "js ''{''"
       and chunks = "[ascii_bytes (text_content_result @ [newline] @ js ''nonsense''
                    @ [newline] @ text_null_result @ [newline] @ js ''{'')]",
       OF h1 h2 h3 h4]
  have "line_events json_parse_sample transport0 text_content_result =
          [OnMessage (correct_structuredContent msg_content_result)]"
    using h5 by (simp add: line_events_def deliver_def)
  moreover have "line_events json_parse_sample transport0 text_null_result =
          [OnMessage (correct_structuredContent msg_null_result)]"
    using T h5 by simp
  ultimately show ?thesis using T h1 h2 h3 h4 h5 tr by simp
qed

text \<open>An empty line is skipped; neither callback is called.\<close>

lemma empty_line_skipped:
  "on_data json_parse_sample transport0 [0x0A] = ([], transport0)"
proof -
  have "on_data json_parse_sample transport0 [0x0A] =
      process_buffer json_parse_sample (transport0\<lparr>buffer := [] @ newline # []\<rparr>)"
    by (simp add: on_data_def transport0_def sample_bytes)
  also have "\<dots> = ([], transport0\<lparr>buffer := []\<rparr>)"
    using process_buffer_line[where l = "[]" and parse = json_parse_sample
        and t = transport0 and rest = "[]"]
    by (simp add: process_buffer_no_newline line_events_def trim_def)
  finally show ?thesis
    by (simp add: transport0_def json_parse_sample_def text_null_result_def
          text_content_result_def js_def)
qed

text \<open>
  The earlier transport, for comparison: a line that does not parse ends the chunk, so the
  message after it in the same chunk is lost.
\<close>

lemma earlier_transport_stops_at_malformed_line:
  "earlier_on_data json_parse_sample transport0
     (ascii_bytes (js ''nonsense'' @ [newline] @ text_content_result @ [newline]))
   = [OnError (js ''Failed to parse message from child process: ''
                 @ js ''nonsense'' @ [newline] @ text_content_result @ [newline])]"
proof -
  have "split_on newline (js ''nonsense'' @ [newline] @ text_content_result @ [newline])
      = [js ''nonsense'', text_content_result, []]"
    by (simp add: js_def newline_def text_content_result_def)
  moreover have "json_parse_sample (js ''nonsense'') = None"
    by (simp add: json_parse_sample_def text_null_result_def text_content_result_def
          text_accent_def text_replaced_def js_def)
  moreover have "js ''nonsense'' \<noteq> []" by (simp add: js_def)
  ultimately show ?thesis
    using sample_bytes(2) by (simp add: earlier_on_data_def transport0_def sample_texts)
qed

section \<open>Startup and the registry\<close>

lemma spawnServers_started:
  "spawnServers world (new_ServerManager\<lparr>config := Some cfg\<rparr>) = Inr (started world cfg)"
  by (simp add: spawnServers_def started_def new_ServerManager_def)

lemmas sample_defs = started_def new_ServerManager_def spawn_server_def discover_def
  client_of_def enabled_def client_listTools_def client_listResources_def
  client_listPrompts_def validated_def

subsection \<open>What a completed registration holds\<close>

lemma registerTool_Inr:
  "registerTool registered tool = Inr registered' \<Longrightarrow>
     registered' = registered @ [tool]
     \<and> (distinct (map rt_name registered) \<longrightarrow> distinct (map rt_name registered'))"
  by (auto simp: registerTool_def split: if_splits)

lemma registerResource_Inr:
  "registerResource registered resource = Inr registered' \<Longrightarrow>
     registered' = registered @ [resource]
     \<and> (distinct (map rr_uri registered) \<longrightarrow> distinct (map rr_uri registered'))"
  by (auto simp: registerResource_def split: if_splits)

lemma registerPrompt_Inr:
  "registerPrompt registered prompt = Inr registered' \<Longrightarrow>
     registered' = registered @ [prompt]
     \<and> (distinct (map rp_name registered) \<longrightarrow> distinct (map rp_name registered'))"
  by (auto simp: registerPrompt_def split: if_splits)

lemma register_tools_step:
  assumes "register_tools registered (toolMetadata # rest) = Inr registered'"
  obtains inputSchema registered1 registered2 where
    "converted (ut_inputSchema toolMetadata) = Inr inputSchema"
    "registerTool registered (register_proxy toolMetadata inputSchema) = Inr registered1"
    "registerTool registered1 register_add = Inr registered2"
    "register_tools registered2 rest = Inr registered'"
  using assms by (auto split: sum.splits)

lemma register_resources_step:
  assumes "register_resources registered (resourceMetadata # rest) = Inr registered'"
  obtains registered1 where
    "registerResource registered (register_resource resourceMetadata) = Inr registered1"
    "register_resources registered1 rest = Inr registered'"
  using assms by (auto split: sum.splits)

lemma register_prompts_step:
  assumes "register_prompts registered (promptMetadata # rest) = Inr registered'"
  obtains argsSchema registered1 where
    "converted (up_argsSchema promptMetadata) = Inr argsSchema"
    "registerPrompt registered (register_prompt promptMetadata argsSchema) = Inr registered1"
    "register_prompts registered1 rest = Inr registered'"
  using assms by (auto split: sum.splits)

lemma register_tools_distinct:
  "register_tools registered tools = Inr registered' \<Longrightarrow> distinct (map rt_name registered)
     \<Longrightarrow> distinct (map rt_name registered')"
proof (induction tools arbitrary: registered)
  case Nil
  then show ?case by simp
next
  case (Cons toolMetadata rest)
  from Cons.prems(1) show ?case
  proof (rule register_tools_step)
    fix inputSchema registered1 registered2
    assume 1: "registerTool registered (register_proxy toolMetadata inputSchema) = Inr registered1"
      and 2: "registerTool registered1 register_add = Inr registered2"
      and 3: "register_tools registered2 rest = Inr registered'"
    from registerTool_Inr[OF 1] Cons.prems(2) have "distinct (map rt_name registered1)" by blast
    with registerTool_Inr[OF 2] have "distinct (map rt_name registered2)" by blast
    with Cons.IH[OF 3] show ?thesis by simp
  qed
qed

lemma register_tools_calls:
  "register_tools registered tools = Inr registered' \<Longrightarrow>
     registered' =
       registered @ concat (map (\<lambda>toolMetadata.
                       [register_proxy toolMetadata
                          (shape_or_undefined (converted (ut_inputSchema toolMetadata))),
                        register_add]) tools)"
proof (induction tools arbitrary: registered)
  case Nil
  then show ?case by simp
next
  case (Cons toolMetadata rest)
  from Cons.prems show ?case
  proof (rule register_tools_step)
    fix inputSchema registered1 registered2
    assume c: "converted (ut_inputSchema toolMetadata) = Inr inputSchema"
      and 1: "registerTool registered (register_proxy toolMetadata inputSchema) = Inr registered1"
      and 2: "registerTool registered1 register_add = Inr registered2"
      and 3: "register_tools registered2 rest = Inr registered'"
    from registerTool_Inr[OF 1] registerTool_Inr[OF 2]
    have "registered2 = registered @ [register_proxy toolMetadata inputSchema, register_add]"
      by simp
    with Cons.IH[OF 3] c show ?thesis by (simp add: shape_or_undefined_def)
  qed
qed

lemma register_resources_distinct:
  "register_resources registered resources = Inr registered' \<Longrightarrow> distinct (map rr_uri registered)
     \<Longrightarrow> distinct (map rr_uri registered')"
proof (induction resources arbitrary: registered)
  case Nil
  then show ?case by simp
next
  case (Cons resourceMetadata rest)
  from Cons.prems(1) show ?case
  proof (rule register_resources_step)
    fix registered1
    assume 1: "registerResource registered (register_resource resourceMetadata) = Inr registered1"
      and 3: "register_resources registered1 rest = Inr registered'"
    from registerResource_Inr[OF 1] Cons.prems(2) have "distinct (map rr_uri registered1)" by blast
    with Cons.IH[OF 3] show ?thesis by simp
  qed
qed

lemma register_resources_calls:
  "register_resources registered resources = Inr registered' \<Longrightarrow>
     registered' = registered @ map register_resource resources"
proof (induction resources arbitrary: registered)
  case Nil
  then show ?case by simp
next
  case (Cons resourceMetadata rest)
  from Cons.prems show ?case
  proof (rule register_resources_step)
    fix registered1
    assume 1: "registerResource registered (register_resource resourceMetadata) = Inr registered1"
      and 3: "register_resources registered1 rest = Inr registered'"
    from registerResource_Inr[OF 1] Cons.IH[OF 3] show ?thesis by simp
  qed
qed

lemma register_prompts_distinct:
  "register_prompts registered prompts = Inr registered' \<Longrightarrow> distinct (map rp_name registered)
     \<Longrightarrow> distinct (map rp_name registered')"
proof (induction prompts arbitrary: registered)
  case Nil
  then show ?case by simp
next
  case (Cons promptMetadata rest)
  from Cons.prems(1) show ?case
  proof (rule register_prompts_step)
    fix argsSchema registered1
    assume 1: "registerPrompt registered (register_prompt promptMetadata argsSchema) = Inr registered1"
      and 3: "register_prompts registered1 rest = Inr registered'"
    from registerPrompt_Inr[OF 1] Cons.prems(2) have "distinct (map rp_name registered1)" by blast
    with Cons.IH[OF 3] show ?thesis by simp
  qed
qed

lemma register_prompts_calls:
  "register_prompts registered prompts = Inr registered' \<Longrightarrow>
     registered' =
       registered @ map (\<lambda>promptMetadata.
                       register_prompt promptMetadata
                         (shape_or_undefined (converted (up_argsSchema promptMetadata)))) prompts"
proof (induction prompts arbitrary: registered)
  case Nil
  then show ?case by simp
next
  case (Cons promptMetadata rest)
  from Cons.prems show ?case
  proof (rule register_prompts_step)
    fix argsSchema registered1
    assume c: "converted (up_argsSchema promptMetadata) = Inr argsSchema"
      and 1: "registerPrompt registered (register_prompt promptMetadata argsSchema) = Inr registered1"
      and 3: "register_prompts registered1 rest = Inr registered'"
    from registerPrompt_Inr[OF 1] Cons.IH[OF 3] c show ?thesis
      by (simp add: shape_or_undefined_def)
  qed
qed

lemma main_Some:
  assumes "main world cfg = Some r"
  shows "r = startup world cfg"
    and "distinct (map rt_name (registeredTools r))"
    and "distinct (map rr_uri (registeredResources r))"
    and "distinct (map rp_name (registeredPrompts r))"
proof -
  from assms obtain tools resources prompts where
    t: "register_tools [] (unifiedTools (started world cfg)) = Inr tools" and
    rs: "register_resources [] (unifiedResources (started world cfg)) = Inr resources" and
    p: "register_prompts [] (unifiedPrompts (started world cfg)) = Inr prompts" and
    r: "r = \<lparr>manager = started world cfg, registeredTools = tools,
             registeredResources = resources, registeredPrompts = prompts\<rparr>"
    by (auto simp: main_def spawnServers_started getUnifiedTools_def getUnifiedResources_def
          getUnifiedPrompts_def split: sum.splits)
  from register_tools_calls[OF t] register_resources_calls[OF rs] register_prompts_calls[OF p]
    register_tools_distinct[OF t] register_resources_distinct[OF rs]
    register_prompts_distinct[OF p] r
  show "r = startup world cfg" "distinct (map rt_name (registeredTools r))"
    "distinct (map rr_uri (registeredResources r))" "distinct (map rp_name (registeredPrompts r))"
    by (simp_all add: startup_def)
qed

lemma main_cases: "main world cfg = None \<or> main world cfg = Some (startup world cfg)"
  using main_Some(1)[of world cfg] by (cases "main world cfg") auto

lemma main_registers:
  assumes "register_tools [] (unifiedTools (started world cfg)) = Inr tools"
    and "register_resources [] (unifiedResources (started world cfg)) = Inr resources"
    and "register_prompts [] (unifiedPrompts (started world cfg)) = Inr prompts"
  shows "main world cfg = Some (startup world cfg)"
  using assms main_cases[of world cfg]
  by (simp add: main_def spawnServers_started getUnifiedTools_def getUnifiedResources_def
        getUnifiedPrompts_def)

lemma db_collections:
  "unifiedTools (started (\<lambda>serverName. db) db_config) = [unify_tool (js ''db'') query_tool]"
  "unifiedResources (started (\<lambda>serverName. db) db_config)
     = [unify_resource (js ''db'') table_resource]"
  "unifiedPrompts (started (\<lambda>serverName. db) db_config) = [unify_prompt (js ''db'') greet_prompt]"
  by (simp_all add: sample_defs db_config_def db_def)

lemma db_converted:
  "converted (ut_inputSchema (unify_tool (js ''db'') query_tool)) = Inr (Some [(js ''sql'', ZString)])"
  "converted (up_argsSchema (unify_prompt (js ''db'') greet_prompt))
     = Inr (Some [(js ''name'', ZString)])"
  by (simp_all add: converted_def convertJsonSchemaToZod_def unify_tool_def unify_prompt_def
        clone_schema_def query_tool_def greet_prompt_def js_def)

lemma db_names:
  "ut_name (unify_tool (js ''db'') query_tool) = js ''db_query''"
  "ur_uri (unify_resource (js ''db'') table_resource) = js ''db_db://tables''"
  "up_name (unify_prompt (js ''db'') greet_prompt) = js ''db_greet''"
  by (simp_all add: unify_tool_def unify_resource_def unify_prompt_def query_tool_def
        table_resource_def greet_prompt_def js_def)

lemma db_registered:
  "registeredTools (startup (\<lambda>serverName. db) db_config)
     = [register_proxy (unify_tool (js ''db'') query_tool) (Some [(js ''sql'', ZString)]),
        register_add]"
  "registeredResources (startup (\<lambda>serverName. db) db_config)
     = [register_resource (unify_resource (js ''db'') table_resource)]"
  "registeredPrompts (startup (\<lambda>serverName. db) db_config)
     = [register_prompt (unify_prompt (js ''db'') greet_prompt) (Some [(js ''name'', ZString)])]"
  by (simp_all add: startup_def db_collections db_converted shape_or_undefined_def)

lemma db_main: "main (\<lambda>serverName. db) db_config = Some (startup (\<lambda>serverName. db) db_config)"
proof -
  have "js ''add'' \<noteq> js ''db_query''" by (simp add: js_def)
  then have "register_tools [] (unifiedTools (started (\<lambda>serverName. db) db_config))
      = Inr [register_proxy (unify_tool (js ''db'') query_tool) (Some [(js ''sql'', ZString)]),
             register_add]"
    by (simp add: db_collections db_converted registerTool_def)
       (simp add: register_proxy_def register_add_def db_names)
  moreover have "register_resources [] (unifiedResources (started (\<lambda>serverName. db) db_config))
      = Inr [register_resource (unify_resource (js ''db'') table_resource)]"
    by (simp add: db_collections registerResource_def)
  moreover have "register_prompts [] (unifiedPrompts (started (\<lambda>serverName. db) db_config))
      = Inr [register_prompt (unify_prompt (js ''db'') greet_prompt)
               (Some [(js ''name'', ZString)])]"
    by (simp add: db_collections db_converted registerPrompt_def)
  ultimately show ?thesis by (rule main_registers)
qed

text \<open>
  C7. The child \<open>flaky\<close> rejects every \<open>callTool\<close> with the error \<open>boom\<close>. The
  handler of its tool \<open>flaky_ping\<close> returns the string \<open>Error: boom\<close>, not an object
  with \<open>isError\<close> and \<open>content\<close>.
\<close>

theorem proxyHandler_failure_returns_string:
  "unifiedTools (started (\<lambda>serverName. flaky) flaky_config) = [unify_tool (js ''flaky'') ping_tool]
   \<and> proxyHandler (started (\<lambda>serverName. flaky) flaky_config)
        (unify_tool (js ''flaky'') ping_tool) (JObj [])
      = Returns (JStr (js ''Error: boom''))"
  by (simp add: sample_defs flaky_config_def flaky_def proxyHandler_def getSpawnedServer_def
        unify_tool_def message_or_unknown_def or_default_def js_def)

text \<open>
  C2. A closing child changes nothing in what the outward server lists. After the only
  child \<open>db\<close> has closed, the ServerManager has forgotten it and has emptied its
  collections, but the tools registered at startup are still listed, and the handler of
  \<open>db_query\<close> throws.
\<close>

theorem closed_child_still_listed:
  "tools_list (child_closes r serverName) = tools_list r
   \<and> map_option (\<lambda>r. tools_list (child_closes r (js ''db''))) (main (\<lambda>serverName. db) db_config)
     = Some [js ''db_query'', js ''add'']
   \<and> map_option (\<lambda>r. getSpawnedServer (manager (child_closes r (js ''db''))) (js ''db''))
        (main (\<lambda>serverName. db) db_config) = Some None
   \<and> map_option (\<lambda>r. unifiedTools (manager (child_closes r (js ''db''))))
        (main (\<lambda>serverName. db) db_config) = Some []
   \<and> map_option (\<lambda>r. proxyHandler (manager (child_closes r (js ''db'')))
                         (unify_tool (js ''db'') query_tool) (JObj []))
        (main (\<lambda>serverName. db) db_config)
       = Some (Throws (not_running_message (js ''db'')))"
proof -
  have 1: "tools_list (child_closes r' a) = tools_list r'" for r' a
    by (simp add: tools_list_def child_closes_def)
  have 2: "tools_list (startup (\<lambda>serverName. db) db_config) = [js ''db_query'', js ''add'']"
    by (simp add: tools_list_def db_registered register_proxy_def register_add_def db_names)
  have 3: "getSpawnedServer (manager (child_closes (startup (\<lambda>serverName. db) db_config)
             (js ''db''))) (js ''db'') = None"
    by (simp add: child_closes_def close_handler_def rebuildUnifiedCollections_def
          getSpawnedServer_def startup_def sample_defs db_config_def db_def)
  have 4: "unifiedTools (manager (child_closes (startup (\<lambda>serverName. db) db_config)
             (js ''db''))) = []"
    by (simp add: child_closes_def close_handler_def rebuildUnifiedCollections_def)
  have 5: "proxyHandler (manager (child_closes (startup (\<lambda>serverName. db) db_config) (js ''db'')))
             (unify_tool (js ''db'') query_tool) (JObj [])
           = Throws (not_running_message (js ''db''))"
    using 3 by (simp add: proxyHandler_def unify_tool_def)
  from 1 2 3 4 5 show ?thesis by (simp add: db_main)
qed


lemma spawn_server_tools:
  "unifiedTools (spawn_server world sm entry) =
     unifiedTools sm @ map (unify_tool (fst entry)) (discovered_tools world entry)"
  by (simp add: spawn_server_def discovered_tools_def Let_def
        split: option.split prod.split)

lemma spawn_server_resources:
  "unifiedResources (spawn_server world sm entry) =
     unifiedResources sm @ map (unify_resource (fst entry)) (discovered_resources world entry)"
  by (simp add: spawn_server_def discovered_resources_def Let_def
        split: option.split prod.split)

lemma spawn_server_prompts:
  "unifiedPrompts (spawn_server world sm entry) =
     unifiedPrompts sm @ map (unify_prompt (fst entry)) (discovered_prompts world entry)"
  by (simp add: spawn_server_def discovered_prompts_def Let_def
        split: option.split prod.split)

lemma foldl_spawn_tools:
  "unifiedTools (foldl (spawn_server world) sm es) =
     unifiedTools sm @ concat (map (\<lambda>e. map (unify_tool (fst e)) (discovered_tools world e)) es)"
  by (induction es arbitrary: sm) (simp_all add: spawn_server_tools)

lemma foldl_spawn_resources:
  "unifiedResources (foldl (spawn_server world) sm es) =
     unifiedResources sm
       @ concat (map (\<lambda>e. map (unify_resource (fst e)) (discovered_resources world e)) es)"
  by (induction es arbitrary: sm) (simp_all add: spawn_server_resources)

lemma foldl_spawn_prompts:
  "unifiedPrompts (foldl (spawn_server world) sm es) =
     unifiedPrompts sm
       @ concat (map (\<lambda>e. map (unify_prompt (fst e)) (discovered_prompts world e)) es)"
  by (induction es arbitrary: sm) (simp_all add: spawn_server_prompts)

lemma started_collections:
  "unifiedTools (started world cfg) =
     concat (map (\<lambda>e. map (unify_tool (fst e)) (discovered_tools world e)) (mcpServers cfg))"
  "unifiedResources (started world cfg) =
     concat (map (\<lambda>e. map (unify_resource (fst e)) (discovered_resources world e)) (mcpServers cfg))"
  "unifiedPrompts (started world cfg) =
     concat (map (\<lambda>e. map (unify_prompt (fst e)) (discovered_prompts world e)) (mcpServers cfg))"
  by (simp_all add: started_def foldl_spawn_tools foldl_spawn_resources foldl_spawn_prompts
        new_ServerManager_def)



lemma js_underscore: "js ''_'' = [0x5F]"
  by (simp add: js_def)






lemma validated_Array: "validated invalid answer = Inr (Array xs) \<longleftrightarrow> answer = Inr (Array xs)"
  by (cases answer) (auto simp: validated_def split: js_field.splits)

lemma validated_no_array:
  "\<forall>xs. answer \<noteq> Inr (Array xs) \<Longrightarrow> \<exists>e. validated invalid answer = Inl e"
  by (cases answer) (auto simp: validated_def split: js_field.splits)

lemma discover_Inl: "discover a cat (Inl e) = (Array [], [Error_listing a cat])"
  by (simp add: discover_def)

lemma discover_Array: "discover a cat (Inr (Array xs)) = (Array xs, [])"
  by (simp add: discover_def)

text \<open>
  C8. Let a configured server be enabled, spawned and connected. It is then in
  \<open>spawnedServers\<close> with its client, whatever the list calls do. A category whose list
  call fails, or whose result has no array (the client rejects such a result), adds
  nothing to its collection and one line \<open>Error listing \<dots>\<close> to the console; a category
  whose result has an array is added in full, whatever happens to the other two; and
  nothing but lines \<open>Error listing \<dots>\<close> of this server is logged, so the \<open>catch\<close> of
  the whole spawn is not reached.
\<close>

theorem discovery_keeps_partial_child:
  assumes on: "disabled serverConfig \<noteq> Some True"
    and spawned: "spawn_throws (world a) = None"
    and connected: "connect_rejects (world a) = None"
    and run: "spawn_server world sm (a, serverConfig) = sm'"
  shows "getSpawnedServer sm' a = Some (client_of a (world a))
     \<and> ((\<forall>ts. listTools (world a) \<noteq> Inr (Array ts)) \<longrightarrow>
          unifiedTools sm' = unifiedTools sm \<and> Error_listing a Tools \<in> set (console sm'))
     \<and> (\<forall>ts. listTools (world a) = Inr (Array ts) \<longrightarrow>
          unifiedTools sm' = unifiedTools sm @ map (unify_tool a) ts)
     \<and> ((\<forall>rs. listResources (world a) \<noteq> Inr (Array rs)) \<longrightarrow>
          unifiedResources sm' = unifiedResources sm
          \<and> Error_listing a Resources \<in> set (console sm'))
     \<and> (\<forall>rs. listResources (world a) = Inr (Array rs) \<longrightarrow>
          unifiedResources sm' = unifiedResources sm @ map (unify_resource a) rs)
     \<and> ((\<forall>ps. listPrompts (world a) \<noteq> Inr (Array ps)) \<longrightarrow>
          unifiedPrompts sm' = unifiedPrompts sm \<and> Error_listing a Prompts \<in> set (console sm'))
     \<and> (\<forall>ps. listPrompts (world a) = Inr (Array ps) \<longrightarrow>
          unifiedPrompts sm' = unifiedPrompts sm @ map (unify_prompt a) ps)
     \<and> (\<exists>lines. console sm' = console sm @ lines
          \<and> set lines \<subseteq> {Error_listing a Tools, Error_listing a Resources,
                           Error_listing a Prompts})"
proof -
  have d: "(\<forall>xs. answer \<noteq> Inr (Array xs)) \<longrightarrow>
             discover a cat (validated invalid answer) = (Array [], [Error_listing a cat])"
          "\<forall>xs. answer = Inr (Array xs) \<longrightarrow>
             discover a cat (validated invalid answer) = (Array xs, [])"
          "set (snd (discover a cat (validated invalid answer))) \<subseteq> {Error_listing a cat}"
    for cat invalid and answer :: "js_error + 'a js_field"
  proof -
    show 1: "(\<forall>xs. answer \<noteq> Inr (Array xs)) \<longrightarrow>
             discover a cat (validated invalid answer) = (Array [], [Error_listing a cat])"
      using validated_no_array[of answer invalid] by (auto simp: discover_Inl)
    show 2: "\<forall>xs. answer = Inr (Array xs) \<longrightarrow>
             discover a cat (validated invalid answer) = (Array xs, [])"
      by (simp add: validated_def discover_Array)
    from 1 2 show "set (snd (discover a cat (validated invalid answer))) \<subseteq> {Error_listing a cat}"
      by (cases "\<forall>xs. answer \<noteq> Inr (Array xs)") auto
  qed
  have srv: "getSpawnedServer sm' a = Some (client_of a (world a))"
    using on spawned connected run[symmetric]
    by (simp add: spawn_server_def getSpawnedServer_def update_conv' Let_def split: prod.split)
  have tools: "unifiedTools sm' = unifiedTools sm
        @ map (unify_tool a) (elements (fst (discover a Tools (client_listTools (world a)))))"
    and resources: "unifiedResources sm' = unifiedResources sm
        @ map (unify_resource a)
            (elements (fst (discover a Resources (client_listResources (world a)))))"
    and prompts: "unifiedPrompts sm' = unifiedPrompts sm
        @ map (unify_prompt a) (elements (fst (discover a Prompts (client_listPrompts (world a)))))"
    and log: "console sm' = console sm
        @ snd (discover a Tools (client_listTools (world a)))
        @ snd (discover a Resources (client_listResources (world a)))
        @ snd (discover a Prompts (client_listPrompts (world a)))"
    using on spawned connected run[symmetric]
    by (simp_all add: spawn_server_def Let_def split: prod.split)
  have t1: "(\<forall>ts. listTools (world a) \<noteq> Inr (Array ts)) \<longrightarrow>
          unifiedTools sm' = unifiedTools sm \<and> Error_listing a Tools \<in> set (console sm')"
    using d(1)[of "listTools (world a)" Tools "invalid_result (world a)"]
    by (auto simp: tools log client_listTools_def)
  have t2: "\<forall>ts. listTools (world a) = Inr (Array ts) \<longrightarrow>
          unifiedTools sm' = unifiedTools sm @ map (unify_tool a) ts"
    using d(2)[of "listTools (world a)" Tools "invalid_result (world a)"]
    by (auto simp: tools client_listTools_def)
  have r1: "(\<forall>rs. listResources (world a) \<noteq> Inr (Array rs)) \<longrightarrow>
          unifiedResources sm' = unifiedResources sm
          \<and> Error_listing a Resources \<in> set (console sm')"
    using d(1)[of "listResources (world a)" Resources "invalid_result (world a)"]
    by (auto simp: resources log client_listResources_def)
  have r2: "\<forall>rs. listResources (world a) = Inr (Array rs) \<longrightarrow>
          unifiedResources sm' = unifiedResources sm @ map (unify_resource a) rs"
    using d(2)[of "listResources (world a)" Resources "invalid_result (world a)"]
    by (auto simp: resources client_listResources_def)
  have p1: "(\<forall>ps. listPrompts (world a) \<noteq> Inr (Array ps)) \<longrightarrow>
          unifiedPrompts sm' = unifiedPrompts sm \<and> Error_listing a Prompts \<in> set (console sm')"
    using d(1)[of "listPrompts (world a)" Prompts "invalid_result (world a)"]
    by (auto simp: prompts log client_listPrompts_def)
  have p2: "\<forall>ps. listPrompts (world a) = Inr (Array ps) \<longrightarrow>
          unifiedPrompts sm' = unifiedPrompts sm @ map (unify_prompt a) ps"
    using d(2)[of "listPrompts (world a)" Prompts "invalid_result (world a)"]
    by (auto simp: prompts client_listPrompts_def)
  have lines: "\<exists>lines. console sm' = console sm @ lines
          \<and> set lines \<subseteq> {Error_listing a Tools, Error_listing a Resources,
                           Error_listing a Prompts}"
    using d(3)[of Tools "invalid_result (world a)" "listTools (world a)"]
      d(3)[of Resources "invalid_result (world a)" "listResources (world a)"]
      d(3)[of Prompts "invalid_result (world a)" "listPrompts (world a)"]
    by (auto simp: log client_listTools_def client_listResources_def client_listPrompts_def)
  from srv t1 t2 r1 r2 p1 p2 lines show ?thesis by blast
qed

theorem discovery_keeps_partial_child_witness:
  "disabled enabled \<noteq> Some True
   \<and> spawn_throws partial_child = None
   \<and> connect_rejects partial_child = None
   \<and> spawn_server (\<lambda>serverName. partial_child) (new_ServerManager\<lparr>config := Some partial_config\<rparr>)
        (js ''partial'', enabled)
       = started (\<lambda>serverName. partial_child) partial_config
   \<and> listTools partial_child = Inr NotAnArray
   \<and> listResources partial_child = Inl (Error (Some (js ''Method not found'')))
   \<and> listPrompts partial_child = Inr (Array [greet_prompt])
   \<and> getSpawnedServer (started (\<lambda>serverName. partial_child) partial_config) (js ''partial'')
       = Some (client_of (js ''partial'') partial_child)
   \<and> unifiedTools (started (\<lambda>serverName. partial_child) partial_config) = []
   \<and> unifiedResources (started (\<lambda>serverName. partial_child) partial_config) = []
   \<and> unifiedPrompts (started (\<lambda>serverName. partial_child) partial_config)
       = [unify_prompt (js ''partial'') greet_prompt]
   \<and> console (started (\<lambda>serverName. partial_child) partial_config)
       = [Error_listing (js ''partial'') Tools, Error_listing (js ''partial'') Resources]"
proof -
  have on: "disabled enabled \<noteq> Some True" by (simp add: enabled_def)
  have spawned: "spawn_throws ((\<lambda>serverName. partial_child) (js ''partial'')) = None"
    and connected: "connect_rejects ((\<lambda>serverName. partial_child) (js ''partial'')) = None"
    by (simp_all add: partial_child_def)
  have run: "spawn_server (\<lambda>serverName. partial_child)
        (new_ServerManager\<lparr>config := Some partial_config\<rparr>) (js ''partial'', enabled)
       = started (\<lambda>serverName. partial_child) partial_config"
    by (simp add: started_def partial_config_def)
  note T = discovery_keeps_partial_child [OF on spawned connected run]
  have lists: "listTools partial_child = Inr NotAnArray"
    "listResources partial_child = Inl (Error (Some (js ''Method not found'')))"
    "listPrompts partial_child = Inr (Array [greet_prompt])"
    by (simp_all add: partial_child_def)
  have empty: "unifiedTools (new_ServerManager\<lparr>config := Some partial_config\<rparr>) = []"
    "unifiedResources (new_ServerManager\<lparr>config := Some partial_config\<rparr>) = []"
    "unifiedPrompts (new_ServerManager\<lparr>config := Some partial_config\<rparr>) = []"
    by (simp_all add: new_ServerManager_def)
  from T lists empty
  have c: "getSpawnedServer (started (\<lambda>serverName. partial_child) partial_config) (js ''partial'')
       = Some (client_of (js ''partial'') partial_child)"
    "unifiedTools (started (\<lambda>serverName. partial_child) partial_config) = []"
    "unifiedResources (started (\<lambda>serverName. partial_child) partial_config) = []"
    "unifiedPrompts (started (\<lambda>serverName. partial_child) partial_config)
       = [unify_prompt (js ''partial'') greet_prompt]"
    by simp_all
  have log: "console (started (\<lambda>serverName. partial_child) partial_config)
       = [Error_listing (js ''partial'') Tools, Error_listing (js ''partial'') Resources]"
    by (simp add: sample_defs partial_config_def partial_child_def)
  from on spawned connected run lists c log show ?thesis by simp
qed


lemma unified_names:
  "map ut_name (map (unify_tool a) ts) = map (\<lambda>x. a @ 0x5F # x) (map ct_name ts)"
  "map ur_uri (map (unify_resource a) rs) = map (\<lambda>x. a @ 0x5F # x) (map cr_uri rs)"
  "map up_name (map (unify_prompt a) ps) = map (\<lambda>x. a @ 0x5F # x) (map cp_name ps)"
  by (simp_all add: unify_tool_def unify_resource_def unify_prompt_def js_underscore)


lemma names_concat:
  "map ut_name (concat (map (\<lambda>e. map (unify_tool (fst e)) (g e)) es)) =
     concat (map (\<lambda>e. map (\<lambda>x. fst e @ 0x5F # x) (map ct_name (g e))) es)"
  "map ur_uri (concat (map (\<lambda>e. map (unify_resource (fst e)) (h e)) es)) =
     concat (map (\<lambda>e. map (\<lambda>x. fst e @ 0x5F # x) (map cr_uri (h e))) es)"
  "map up_name (concat (map (\<lambda>e. map (unify_prompt (fst e)) (k e)) es)) =
     concat (map (\<lambda>e. map (\<lambda>x. fst e @ 0x5F # x) (map cp_name (k e))) es)"
  by (induction es)
     (simp_all add: unify_tool_def unify_resource_def unify_prompt_def js_underscore)




section \<open>Registration and forwarding\<close>

lemma main_registered:
  assumes "main world cfg = Some r"
  shows "register_tools [] (unifiedTools (started world cfg)) = Inr (registeredTools r)"
  using assms
  by (auto simp: main_def spawnServers_started getUnifiedTools_def split: sum.splits)

lemma started_tool_names_underscore:
  "n \<in> set (map ut_name (unifiedTools (started world cfg))) \<Longrightarrow> 0x5F \<in> set n"
  unfolding started_collections names_concat by auto

lemma add_registered_blocks:
  assumes a: "js ''add'' \<in> set (map rt_name registered)"
  shows "register_tools registered (toolMetadata # rest) \<noteq> Inr registered'"
proof
  assume "register_tools registered (toolMetadata # rest) = Inr registered'"
  then show False
  proof (rule register_tools_step)
    fix inputSchema registered1 registered2
    assume 1: "registerTool registered (register_proxy toolMetadata inputSchema) = Inr registered1"
      and 2: "registerTool registered1 register_add = Inr registered2"
    from registerTool_Inr[OF 1] a have "js ''add'' \<in> set (map rt_name registered1)" by auto
    with 2 show False by (simp add: registerTool_def register_add_def)
  qed
qed

lemma two_tools_rejected:
  "register_tools registered (toolMetadata1 # toolMetadata2 # rest) \<noteq> Inr registered'"
proof
  assume "register_tools registered (toolMetadata1 # toolMetadata2 # rest) = Inr registered'"
  then show False
  proof (rule register_tools_step)
    fix inputSchema registered1 registered2
    assume 2: "registerTool registered1 register_add = Inr registered2"
      and 3: "register_tools registered2 (toolMetadata2 # rest) = Inr registered'"
    from registerTool_Inr[OF 2] have "js ''add'' \<in> set (map rt_name registered2)"
      by (auto simp: register_add_def)
    from add_registered_blocks[OF this] 3 show False by blast
  qed
qed

lemma flaky_converted:
  "converted (ut_inputSchema (unify_tool (js ''flaky'') ping_tool)) = Inr (Some [])"
  by (simp add: converted_def convertJsonSchemaToZod_def unify_tool_def clone_schema_def
        ping_tool_def js_def)

lemma flaky_name: "ut_name (unify_tool (js ''flaky'') ping_tool) = js ''flaky_ping''"
  by (simp add: unify_tool_def ping_tool_def js_def)

text \<open>
  C10. The children \<open>db\<close> and \<open>flaky\<close> report one tool each. \<open>main\<close> registers
  \<open>db_query\<close> and \<open>add\<close> for the first and \<open>flaky_ping\<close> for the second; the
  second registration of \<open>add\<close> is refused, \<open>main\<close> rejects, and the outward server
  does not come up. Whenever \<open>main\<close> does not reject, at most one tool was discovered.
\<close>

theorem add_registered_twice:
  "unifiedTools (started two_servers_world two_servers_config)
     = [unify_tool (js ''db'') query_tool, unify_tool (js ''flaky'') ping_tool]
   \<and> register_tools [] (unifiedTools (started two_servers_world two_servers_config))
     = Inl (Already_registered Tools (js ''add''))
   \<and> main two_servers_world two_servers_config = None
   \<and> (main world cfg = None \<or> length (getUnifiedTools (started world cfg)) \<le> 1)"
proof -
  have w: "two_servers_world (js ''db'') = db" "two_servers_world (js ''flaky'') = flaky"
    by (simp_all add: two_servers_world_def js_def)
  have ts: "unifiedTools (started two_servers_world two_servers_config)
     = [unify_tool (js ''db'') query_tool, unify_tool (js ''flaky'') ping_tool]"
    by (simp add: sample_defs two_servers_config_def w db_def flaky_def)
  have names: "js ''add'' \<noteq> js ''db_query''" "js ''flaky_ping'' \<noteq> js ''db_query''"
    "js ''flaky_ping'' \<noteq> js ''add''"
    by (simp_all add: js_def)
  have reg: "register_tools [] (unifiedTools (started two_servers_world two_servers_config))
     = Inl (Already_registered Tools (js ''add''))"
    using names
    by (simp add: ts db_converted flaky_converted registerTool_def register_proxy_def
          register_add_def db_names flaky_name)
  then have rejects: "main two_servers_world two_servers_config = None"
    by (simp add: main_def spawnServers_started getUnifiedTools_def)
  have "length (getUnifiedTools (started world cfg)) \<le> 1" if "main world cfg = Some r" for r
  proof (cases "unifiedTools (started world cfg)")
    case Nil
    then show ?thesis by (simp add: getUnifiedTools_def)
  next
    case (Cons toolMetadata1 rest)
    with main_registered[OF that] two_tools_rejected[of "[]" toolMetadata1]
    show ?thesis by (cases rest) (auto simp: getUnifiedTools_def)
  qed
  then have "main world cfg = None \<or> length (getUnifiedTools (started world cfg)) \<le> 1"
    by (cases "main world cfg") auto
  with ts reg rejects show ?thesis by simp
qed






lemma db_started:
  "getSpawnedServer (started (\<lambda>serverName. db) db_config) (js ''db'')
     = Some (client_of (js ''db'') db)"
  "discovered_tools (\<lambda>serverName. db) (js ''db'', enabled) = [query_tool]"
  "discovered_resources (\<lambda>serverName. db) (js ''db'', enabled) = [table_resource]"
  "discovered_prompts (\<lambda>serverName. db) (js ''db'', enabled) = [greet_prompt]"
  by (simp_all add: getSpawnedServer_def sample_defs db_config_def db_def discovered_tools_def
        discovered_resources_def discovered_prompts_def)

lemma started_resource_names_underscore:
  "n \<in> set (map ur_uri (unifiedResources (started world cfg))) \<Longrightarrow> 0x5F \<in> set n"
  unfolding started_collections names_concat by auto

lemma registered_resources:
  "rr_name \<circ> register_resource = ur_uri"
  "rr_uri \<circ> register_resource = ur_originalResourceUri"
  by (simp_all add: register_resource_def fun_eq_iff)

lemma original_uris:
  "map ur_originalResourceUri (concat (map (\<lambda>e. map (unify_resource (fst e)) (h e)) es)) =
     concat (map (\<lambda>e. map cr_uri (h e)) es)"
  by (induction es) (simp_all add: unify_resource_def comp_def)

text \<open>
  C9. The resources that \<open>main\<close> registers are the entries of the unified collection
  and nothing else: their URIs are the original URIs of the entries, their names the
  unified URIs, and no name is \<open>stats://mcp-router-server\<close>. With one child exposing
  \<open>db://tables\<close> exactly that resource is listed; with no child none is. Whenever
  \<open>main\<close> does not reject, the router it has set up is \<open>startup\<close>.
\<close>

theorem no_stats_resource:
  "resources_list (startup world cfg) =
     map ur_originalResourceUri (getUnifiedResources (manager (startup world cfg)))
   \<and> map rr_name (registeredResources (startup world cfg)) =
     map ur_uri (getUnifiedResources (manager (startup world cfg)))
   \<and> js ''stats://mcp-router-server''
        \<notin> set (map rr_name (registeredResources (startup world cfg)))
   \<and> main (\<lambda>serverName. db) db_config = Some (startup (\<lambda>serverName. db) db_config)
   \<and> map rr_name (registeredResources (startup (\<lambda>serverName. db) db_config))
       = [js ''db_db://tables'']
   \<and> resources_list (startup (\<lambda>serverName. db) db_config) = [js ''db://tables'']
   \<and> main (\<lambda>serverName. db) \<lparr>mcpServers = []\<rparr>
       = Some (startup (\<lambda>serverName. db) \<lparr>mcpServers = []\<rparr>)
   \<and> resources_list (startup (\<lambda>serverName. db) \<lparr>mcpServers = []\<rparr>) = []
   \<and> (main world cfg = None \<or> main world cfg = Some (startup world cfg))"
proof -
  have 0: "resources_list (startup w c) =
     map ur_originalResourceUri (getUnifiedResources (manager (startup w c)))
   \<and> map rr_name (registeredResources (startup w c)) =
     map ur_uri (getUnifiedResources (manager (startup w c)))" for w c
    by (simp add: resources_list_def startup_def registered_resources getUnifiedResources_def)
  have 1: "resources_list (startup w c) =
     concat (map (\<lambda>e. map cr_uri (discovered_resources w e)) (mcpServers c))" for w c
    by (simp add: resources_list_def startup_def registered_resources started_collections
          original_uris)
  have "0x5F \<notin> set (js ''stats://mcp-router-server'')" by (simp add: js_def)
  then have 2: "js ''stats://mcp-router-server''
        \<notin> set (map rr_name (registeredResources (startup world cfg)))"
    using started_resource_names_underscore[of "js ''stats://mcp-router-server''" world cfg]
    by (auto simp: startup_def registered_resources)
  have 3: "map rr_name (registeredResources (startup (\<lambda>serverName. db) db_config))
       = [js ''db_db://tables'']"
    by (simp add: startup_def registered_resources started_collections db_config_def
          db_started unify_resource_def table_resource_def register_resource_def)
       (simp add: js_def)
  have 4: "resources_list (startup (\<lambda>serverName. db) db_config) = [js ''db://tables'']"
    unfolding 1 by (simp add: db_config_def db_started table_resource_def)
  have 5: "resources_list (startup (\<lambda>serverName. db) \<lparr>mcpServers = []\<rparr>) = []"
    unfolding 1 by simp
  have 6: "main (\<lambda>serverName. db) \<lparr>mcpServers = []\<rparr>
       = Some (startup (\<lambda>serverName. db) \<lparr>mcpServers = []\<rparr>)"
    by (rule main_registers) (simp_all add: started_def new_ServerManager_def)
  from 0[of world cfg] 2 3 4 5 6 main_cases[of world cfg] show ?thesis by (simp add: db_main)
qed



text \<open>
  The tool \<open>c\<close> of a child with the alias \<open>a\<close> has the schema \<open>{type: "object"}\<close>,
  without properties, so its proxy is registered without a schema: whatever the arguments
  of a call are, the handler is invoked with the \<open>extra\<close> object.
\<close>

lemma tool_without_properties_gets_extra:
  "map_option (\<lambda>r. call_tool safeParse extra (registeredTools r) (js ''a_c'') args)
     (main (\<lambda>serverName. child_with_tool (js ''c'')) plain_config)
   = Some (Invoke (ProxyHandler (unify_tool (js ''a'') (tool_named (js ''c'')))) extra)"
proof -
  have ts: "unifiedTools (started (\<lambda>serverName. child_with_tool (js ''c'')) plain_config)
      = [unify_tool (js ''a'') (tool_named (js ''c''))]"
    "unifiedResources (started (\<lambda>serverName. child_with_tool (js ''c'')) plain_config) = []"
    "unifiedPrompts (started (\<lambda>serverName. child_with_tool (js ''c'')) plain_config) = []"
    by (simp_all add: sample_defs plain_config_def child_with_tool_def)
  have c: "converted (ut_inputSchema (unify_tool (js ''a'') (tool_named (js ''c'')))) = Inr None"
    by (simp add: converted_def convertJsonSchemaToZod_def unify_tool_def clone_schema_def
          tool_named_def js_def)
  have n: "ut_name (unify_tool (js ''a'') (tool_named (js ''c''))) = js ''a_c''"
    by (simp add: unify_tool_def tool_named_def js_def)
  have "js ''add'' \<noteq> js ''a_c''" by (simp add: js_def)
  then have "register_tools []
        (unifiedTools (started (\<lambda>serverName. child_with_tool (js ''c'')) plain_config))
      = Inr [register_proxy (unify_tool (js ''a'') (tool_named (js ''c''))) None, register_add]"
    by (simp add: ts c registerTool_def) (simp add: register_proxy_def register_add_def n)
  then have "main (\<lambda>serverName. child_with_tool (js ''c'')) plain_config
      = Some (startup (\<lambda>serverName. child_with_tool (js ''c'')) plain_config)"
    by (rule main_registers) (simp_all add: ts)
  then show ?thesis
    by (simp add: startup_def ts c shape_or_undefined_def call_tool_def register_proxy_def n)
qed

end
